theory Spec2Isabelle
  imports Complex_Main
begin

section \<open>Python values used by the trading engine\<close>

text \<open>
  The engine is Python. Prices, balances and ratios are Python floats; they are modelled as
  reals, so rounding of the floating-point unit is not part of the model. Periods and share
  counts are Python's unbounded integers. Every exception the modelled code can raise is a
  constructor of \<open>py_error\<close>, and a function that can raise returns \<open>py_error + 'a\<close>.
\<close>

datatype value_error =
    RateLimited          \<comment> \<open>the two messages of get_access_token that mention the issuance limit\<close>
  | AuthFailed           \<comment> \<open>the message of get_access_token after a 403 that is no rate limit\<close>
  | NoApiKey             \<comment> \<open>app key or secret missing\<close>
  | NoAccessToken        \<comment> \<open>issuance response without access_token\<close>
  | JSONDecodeError      \<comment> \<open>json.JSONDecodeError, a subclass of ValueError\<close>
  | NaNToInteger         \<comment> \<open>int() of a float NaN\<close>

text \<open>
  The body of an HTTP response, as far as the client reads it. A JSON object is kept by the
  keys the client looks up. \<open>msgs_readable\<close> says that \<open>msg_cd\<close> and \<open>msg1\<close> are
  strings or absent. The values of \<open>error_code\<close> and \<open>error_description\<close>, on which the
  client evaluates \<open>needle in value\<close>, are kept as a \<open>json_field\<close>: the key is absent
  (\<open>.get\<close> then gives the empty string), the value is a string (its UTF-8 bytes), it is a
  null, number or boolean (the test raises TypeError), or it is an array or object (the test
  is a membership test, whose outcome is kept).
\<close>

datatype expiry_field = NoExpiry | BadExpiry | Expiry int

datatype json_field = Missing | Text string | Untestable | Collection bool

record json_object =
  rt_cd :: "string option"
  msgs_readable :: bool
  error_code :: json_field
  error_description :: json_field
  jo_access_token :: "string option"
  expires_in :: "int option"
  access_token_token_expired :: expiry_field

datatype body = NotJson | NotAnObject | JsonObject json_object

datatype py_error =
    ZeroDivisionError
  | ValueError value_error
  | ConnectionError               \<comment> \<open>the builtin, raised by _request on httpx.ConnectError\<close>
  | TimeoutError                  \<comment> \<open>the builtin, raised by _request on httpx.TimeoutException\<close>
  | HTTPStatusError nat body      \<comment> \<open>httpx.HTTPStatusError with the response's status and body\<close>
  | HttpxTransportError           \<comment> \<open>httpx.ConnectError or httpx.TimeoutException, not translated\<close>
  | BrokerRejected                \<comment> \<open>the plain Exception raised for an envelope with rt_cd other than 0\<close>
  | IndexError
  | OverflowError                 \<comment> \<open>int() of a float infinity\<close>
  | OtherError

text \<open>\<open>int(x)\<close> on a float truncates towards zero.\<close>

definition py_int :: "real \<Rightarrow> int" where
  "py_int x = (if 0 \<le> x then \<lfloor>x\<rfloor> else \<lceil>x\<rceil>)"

text \<open>
  Python slices \<open>xs[i:]\<close> and \<open>xs[i:j]\<close>: a negative bound counts from the end, and
  every bound is clipped to the list.
\<close>

definition py_bound :: "int \<Rightarrow> nat \<Rightarrow> nat" where
  "py_bound i n = (if i < 0 then nat (max 0 (int n + i)) else min (nat i) n)"

definition py_slice_from :: "int \<Rightarrow> 'a list \<Rightarrow> 'a list" where
  "py_slice_from i xs = drop (py_bound i (length xs)) xs"

definition py_slice :: "int \<Rightarrow> int \<Rightarrow> 'a list \<Rightarrow> 'a list" where
  "py_slice i j xs =
     (let lo = py_bound i (length xs); hi = py_bound j (length xs)
      in take (hi - lo) (drop lo xs))"

text \<open>\<open>sum(xs) / n\<close> with an integer \<open>n\<close>: division by zero raises.\<close>

definition py_mean :: "real list \<Rightarrow> int \<Rightarrow> py_error + real" where
  "py_mean xs n = (if n = 0 then Inl ZeroDivisionError else Inr (sum_list xs / real_of_int n))"

text \<open>Sequencing of calls that can raise: the first exception ends the computation.\<close>

definition and_then :: "py_error + 'a \<Rightarrow> ('a \<Rightarrow> py_error + 'b) \<Rightarrow> py_error + 'b" where
  "and_then m f = (case m of Inl e \<Rightarrow> Inl e | Inr x \<Rightarrow> f x)"

text \<open>\<open>xs[i]\<close>: a negative index counts from the end; out of range raises.\<close>

definition py_index :: "'a list \<Rightarrow> int \<Rightarrow> py_error + 'a" where
  "py_index xs i =
     (if 0 \<le> i \<and> i < int (length xs) then Inr (xs ! nat i)
      else if i < 0 \<and> - int (length xs) \<le> i then Inr (xs ! nat (int (length xs) + i))
      else Inl IndexError)"

section \<open>Python floats\<close>

text \<open>
  A Python float is an IEEE 754 binary64 number. \<open>Finite x\<close> is the float whose exact value is
  the real \<open>x\<close> (the sign of a zero is not kept: no operation modelled here reads it).
  \<open>float_of\<close> rounds a real to the nearest float, ties to the even significand, as every
  float operation and the reading of a decimal literal do: \<open>binade\<close> scales the magnitude
  into \<open>[1, 2)\<close> (or below 1 at the smallest exponent, for subnormals) and counts the exponent,
  the significand is rounded to 52 fractional bits, and a result past the largest float is an
  infinity.
\<close>

datatype pyfloat = Finite real | PosInf | NegInf | NaN

definition round_half_even :: "real \<Rightarrow> int" where
  "round_half_even x =
     (let f = \<lfloor>x\<rfloor>; d = x - of_int f
      in if d < 1 / 2 then f else if 1 / 2 < d then f + 1 else if even f then f else f + 1)"

fun binade :: "nat \<Rightarrow> real \<Rightarrow> int \<Rightarrow> real \<times> int" where
  "binade 0 y e = (y, e)"
| "binade (Suc fuel) y e =
     (if 2 \<le> y then binade fuel (y / 2) (e + 1)
      else if y < 1 \<and> - 1022 < e then binade fuel (y * 2) (e - 1)
      else (y, e))"

definition scaled :: "int \<Rightarrow> int \<Rightarrow> real" where
  "scaled m e = of_int m * (if 52 \<le> e then 2 ^ nat (e - 52) else 1 / 2 ^ nat (52 - e))"

definition assemble :: "bool \<Rightarrow> real \<Rightarrow> int \<Rightarrow> pyfloat" where
  "assemble positive y e =
     (if 1023 < e \<or> (e = 1023 \<and> 2 ^ 53 \<le> round_half_even (y * 2 ^ 52))
      then (if positive then PosInf else NegInf)
      else Finite (if positive then scaled (round_half_even (y * 2 ^ 52)) e
                   else - scaled (round_half_even (y * 2 ^ 52)) e))"

definition float_of :: "real \<Rightarrow> pyfloat" where
  "float_of x =
     (if x = 0 then Finite 0
      else assemble (0 < x) (fst (binade 2200 \<bar>x\<bar> 0)) (snd (binade 2200 \<bar>x\<bar> 0)))"

text \<open>\<open>x * y\<close> on floats.\<close>

fun fmul :: "pyfloat \<Rightarrow> pyfloat \<Rightarrow> pyfloat" where
  "fmul NaN b = NaN"
| "fmul a NaN = NaN"
| "fmul (Finite x) (Finite y) = float_of (x * y)"
| "fmul (Finite x) PosInf = (if x = 0 then NaN else if 0 < x then PosInf else NegInf)"
| "fmul (Finite x) NegInf = (if x = 0 then NaN else if 0 < x then NegInf else PosInf)"
| "fmul PosInf (Finite y) = (if y = 0 then NaN else if 0 < y then PosInf else NegInf)"
| "fmul NegInf (Finite y) = (if y = 0 then NaN else if 0 < y then NegInf else PosInf)"
| "fmul PosInf PosInf = PosInf"
| "fmul PosInf NegInf = NegInf"
| "fmul NegInf PosInf = NegInf"
| "fmul NegInf NegInf = PosInf"

text \<open>\<open>x / y\<close> on floats: a zero divisor raises, whatever the dividend.\<close>

fun fdiv :: "pyfloat \<Rightarrow> pyfloat \<Rightarrow> py_error + pyfloat" where
  "fdiv a (Finite y) =
     (if y = 0 then Inl ZeroDivisionError
      else (case a of
              Finite x \<Rightarrow> Inr (float_of (x / y))
            | PosInf \<Rightarrow> Inr (if 0 < y then PosInf else NegInf)
            | NegInf \<Rightarrow> Inr (if 0 < y then NegInf else PosInf)
            | NaN \<Rightarrow> Inr NaN))"
| "fdiv a NaN = Inr NaN"
| "fdiv (Finite x) b = Inr (Finite 0)"
| "fdiv a b = Inr NaN"

text \<open>
  \<open>int(x)\<close> on a float: truncation towards zero; an infinity raises OverflowError and a NaN
  raises ValueError.
\<close>

fun int_of_float :: "pyfloat \<Rightarrow> py_error + int" where
  "int_of_float (Finite x) = Inr (py_int x)"
| "int_of_float NaN = Inl (ValueError NaNToInteger)"
| "int_of_float a = Inl OverflowError"

section \<open>Strategy configuration and sizing (strategies.py)\<close>

text \<open>
  A strategy's \<open>config\<close> is a dictionary; the keys the engine reads are the fields of this
  record, \<open>None\<close> for a key that is absent. A number of the configuration is kept by the
  decimal that was written; the float Python reads from it is its \<open>float_of\<close>.
\<close>

record config =
  allocation_ratio :: "real option"
  available_balance :: "real option"
  order_type :: "string option"
  max_sell_quantity :: "int option"

datatype variant =
  MovingAverageCrossover | RSI | BollingerBands | MACD | Momentum | MeanReversion

text \<open>The default of \<open>self.config.get("allocation_ratio", d)\<close> in each class, as written.\<close>

fun default_allocation_ratio :: "variant \<Rightarrow> real" where
  "default_allocation_ratio MovingAverageCrossover = 0.1"
| "default_allocation_ratio RSI = 0.15"
| "default_allocation_ratio BollingerBands = 0.12"
| "default_allocation_ratio MACD = 0.12"
| "default_allocation_ratio Momentum = 0.1"
| "default_allocation_ratio MeanReversion = 0.1"

definition get_allocation_ratio :: "variant \<Rightarrow> config \<Rightarrow> pyfloat" where
  "get_allocation_ratio v cfg =
     (case allocation_ratio cfg of
        None \<Rightarrow> float_of (default_allocation_ratio v)
      | Some r \<Rightarrow> float_of r)"

text \<open>
  \<open>calculate_buy_quantity\<close>, the same body in all six classes, on float arguments:
  \<^verbatim>\<open>
  invest_amount = available_balance * allocation_ratio
  quantity = int(invest_amount / current_price)
  return max(1, quantity)
  \<close>
\<close>

definition calculate_buy_quantity ::
  "variant \<Rightarrow> config \<Rightarrow> string \<Rightarrow> pyfloat \<Rightarrow> pyfloat \<Rightarrow> py_error + int" where
  "calculate_buy_quantity v cfg stock_code balance current_price =
     (let invest_amount = fmul balance (get_allocation_ratio v cfg)
      in and_then (fdiv invest_amount current_price) (\<lambda>quo.
         and_then (int_of_float quo) (\<lambda>qty.
         Inr (max 1 qty))))"

definition default_config :: config where
  "default_config =
     \<lparr>allocation_ratio = None, available_balance = None, order_type = None,
      max_sell_quantity = None\<rparr>"

text \<open>The value of a finite float, for statements in exact arithmetic.\<close>

definition is_finite :: "pyfloat \<Rightarrow> bool" where
  "is_finite a = (case a of Finite x \<Rightarrow> True | _ \<Rightarrow> False)"

section \<open>Sizing: what calculate_buy_quantity returns\<close>

lemma max_one_py_int: "max 1 (py_int x) = max 1 \<lfloor>x\<rfloor>"
proof (cases "0 \<le> x")
  case True
  then show ?thesis by (simp add: py_int_def)
next
  case False
  then have "x < 0" by simp
  then have "\<lceil>x\<rceil> \<le> 0" and "\<lfloor>x\<rfloor> \<le> 0"
    by (simp_all add: ceiling_le_iff floor_le_iff)
  with False show ?thesis by (simp add: py_int_def max_def)
qed

lemma fdiv_by_nonzero:
  assumes "price \<noteq> 0"
  shows "\<exists>quo. fdiv a (Finite price) = Inr quo"
  using assms by (cases a) simp_all

lemma sized_from_quotient:
  assumes "fdiv (fmul balance (get_allocation_ratio v cfg)) current_price = Inr quo"
  shows "calculate_buy_quantity v cfg code balance current_price
           = (case quo of
                Finite x \<Rightarrow> Inr (max 1 \<lfloor>x\<rfloor>)
              | NaN \<Rightarrow> Inl (ValueError NaNToInteger)
              | _ \<Rightarrow> Inl OverflowError)"
  using assms
  by (cases quo) (simp_all add: calculate_buy_quantity_def and_then_def max_one_py_int)

text \<open>
  C6, as the code has it. For every variant, every balance \<open>\<ge> 0\<close> and price \<open>> 0\<close>:
  the call returns exactly when the float quotient \<open>balance * ratio / price\<close>, computed with
  two rounded float operations, is finite, and then it returns \<open>max 1 \<lfloor>x\<rfloor>\<close> for the value
  \<open>x\<close> of that quotient; every returned quantity is an integer that is at least 1; otherwise
  the call raises OverflowError (infinite quotient) or ValueError (NaN). Where the product and
  the quotient are floats without rounding, the result is \<open>max 1 \<lfloor>balance * r / price\<rfloor>\<close> in
  exact arithmetic.
\<close>

theorem calculate_buy_quantity_at_least_one:
  assumes "0 \<le> balance" and "0 < price"
  shows "(\<forall>q. calculate_buy_quantity v cfg code (Finite balance) (Finite price) = Inr q
              \<longrightarrow> 1 \<le> q)
    \<and> (\<forall>x. fdiv (fmul (Finite balance) (get_allocation_ratio v cfg)) (Finite price)
               = Inr (Finite x)
              \<longrightarrow> calculate_buy_quantity v cfg code (Finite balance) (Finite price)
                    = Inr (max 1 \<lfloor>x\<rfloor>))
    \<and> ((\<exists>q. calculate_buy_quantity v cfg code (Finite balance) (Finite price) = Inr q)
         = (\<exists>x. fdiv (fmul (Finite balance) (get_allocation_ratio v cfg)) (Finite price)
                   = Inr (Finite x)))
    \<and> (\<forall>e. calculate_buy_quantity v cfg code (Finite balance) (Finite price) = Inl e
              \<longrightarrow> e = OverflowError \<or> e = ValueError NaNToInteger)
    \<and> (\<forall>r. get_allocation_ratio v cfg = Finite r
              \<and> float_of (balance * r) = Finite (balance * r)
              \<and> float_of (balance * r / price) = Finite (balance * r / price)
              \<longrightarrow> calculate_buy_quantity v cfg code (Finite balance) (Finite price)
                    = Inr (max 1 \<lfloor>balance * r / price\<rfloor>))"
proof -
  let ?call = "calculate_buy_quantity v cfg code (Finite balance) (Finite price)"
  let ?quot = "fdiv (fmul (Finite balance) (get_allocation_ratio v cfg)) (Finite price)"
  from assms(2) have "price \<noteq> 0" by simp
  then obtain quo where q: "?quot = Inr quo"
    using fdiv_by_nonzero by blast
  have call: "?call = (case quo of
                Finite x \<Rightarrow> Inr (max 1 \<lfloor>x\<rfloor>)
              | NaN \<Rightarrow> Inl (ValueError NaNToInteger)
              | _ \<Rightarrow> Inl OverflowError)"
    using sized_from_quotient [OF q] .
  have c1: "\<forall>q. ?call = Inr q \<longrightarrow> 1 \<le> q"
    using call by (cases quo) auto
  have c2: "\<forall>x. ?quot = Inr (Finite x) \<longrightarrow> ?call = Inr (max 1 \<lfloor>x\<rfloor>)"
    using call q by auto
  have c3: "(\<exists>q. ?call = Inr q) = (\<exists>x. ?quot = Inr (Finite x))"
    using call q by (cases quo) auto
  have c4: "\<forall>e. ?call = Inl e \<longrightarrow> e = OverflowError \<or> e = ValueError NaNToInteger"
    using call by (cases quo) auto
  have c5: "?call = Inr (max 1 \<lfloor>balance * r / price\<rfloor>)"
    if "get_allocation_ratio v cfg = Finite r"
      and "float_of (balance * r) = Finite (balance * r)"
      and "float_of (balance * r / price) = Finite (balance * r / price)" for r
  proof -
    from that \<open>price \<noteq> 0\<close> have "?quot = Inr (Finite (balance * r / price))"
      by simp
    with c2 show ?thesis by blast
  qed
  show ?thesis using c1 c2 c3 c4 c5 by blast
qed

theorem calculate_buy_quantity_at_least_one_witness:
  "(0::real) \<le> 1000000 \<and> (0::real) < 2
   \<and> calculate_buy_quantity MovingAverageCrossover default_config ''005930''
        (Finite 1000000) (Finite 2) = Inr 50000"
proof -
  have b: "(0::real) \<le> 1000000" and p: "(0::real) < 2" by simp_all
  have quot: "fdiv (fmul (Finite 1000000) (get_allocation_ratio MovingAverageCrossover default_config))
                (Finite 2) = Inr (Finite 50000)"
    by code_simp
  from calculate_buy_quantity_at_least_one
    [OF b p, of MovingAverageCrossover default_config "''005930''"] quot
  have "calculate_buy_quantity MovingAverageCrossover default_config ''005930''
          (Finite 1000000) (Finite 2) = Inr (max 1 \<lfloor>50000::real\<rfloor>)"
    by blast
  then show ?thesis by simp
qed

text \<open>
  The claim's equation \<open>quantity = floor(balance * ratio / price)\<close> fails in two ways. With an
  empty balance the floor is 0 and the code returns 1. With balance 100, ratio 0.29 and price 1
  the floor is 29 and the code returns 28: the float product \<open>100 * 0.29\<close> is
  28.999999999999996.
\<close>

theorem calculate_buy_quantity_floor_counterexample:
  "calculate_buy_quantity MovingAverageCrossover default_config ''005930''
     (Finite 0) (Finite 70000) = Inr 1
   \<and> \<lfloor>(0::real) * 0.1 / 70000\<rfloor> = 0
   \<and> calculate_buy_quantity MovingAverageCrossover (default_config\<lparr>allocation_ratio := Some 0.29\<rparr>)
        ''005930'' (Finite 100) (Finite 1) = Inr 28
   \<and> \<lfloor>(100::real) * 0.29 / 1\<rfloor> = 29"
  by code_simp

section \<open>The scheduler (scheduler.py)\<close>

text \<open>
  \<open>AutoTradingScheduler\<close> owns an APScheduler object. Of that library the model keeps what
  the class uses: a scheduler holds jobs, a job has an id, a trigger and \<open>max_instances\<close>,
  \<open>add_job(..., replace_existing=True)\<close> replaces the job of the same id, and building a
  scheduler, adding a job and starting it succeed. Log lines are kept with their level, the
  message named by an English tag.
\<close>

datatype trigger = CronTrigger nat nat | IntervalTrigger int

record job =
  job_id :: string
  job_trigger :: trigger
  max_instances :: nat

record apscheduler =
  jobs :: "job list"
  started :: bool

datatype log_level = Info | Warning | Error

type_synonym log_line = "log_level \<times> string"

record scheduler_state =
  scheduler :: "apscheduler option"
  is_running :: bool
  interval_seconds :: int
  schedule_type :: string
  log :: "log_line list"

definition init_scheduler :: scheduler_state where
  "init_scheduler =
     \<lparr>scheduler = None, is_running = False, interval_seconds = 60,
      schedule_type = ''interval'', log = []\<rparr>"

definition add_job :: "job \<Rightarrow> apscheduler \<Rightarrow> apscheduler" where
  "add_job j s = s\<lparr>jobs := filter (\<lambda>k. job_id k \<noteq> job_id j) (jobs s) @ [j]\<rparr>"

text \<open>
  \<open>start\<close> returns \<open>None\<close> on both paths and has no \<open>raise\<close>; the first component of the
  result is how the call ended (\<open>Inr ()\<close>: it returned).
\<close>

definition start :: "int \<Rightarrow> string \<Rightarrow> scheduler_state \<Rightarrow> (py_error + unit) \<times> scheduler_state" where
  "start interval stype st =
     (if is_running st
      then (Inr (), st\<lparr>log := log st @ [(Warning, ''scheduler already running'')]\<rparr>)
      else
        let trig = (if stype = ''daily'' then CronTrigger 9 5 else IntervalTrigger interval);
            line = (if stype = ''daily'' then (Info, ''scheduler start: daily 09:05'')
                    else (Info, ''scheduler start: interval''));
            sch = add_job \<lparr>job_id = ''auto_trading_job'', job_trigger = trig, max_instances = 1\<rparr>
                    \<lparr>jobs = [], started = False\<rparr>
        in (Inr (),
            st\<lparr>interval_seconds := interval, schedule_type := stype,
               scheduler := Some (sch\<lparr>started := True\<rparr>), is_running := True,
               log := log st @ [line]\<rparr>))"

definition stop :: "scheduler_state \<Rightarrow> (py_error + unit) \<times> scheduler_state" where
  "stop st =
     (case scheduler st of
        None \<Rightarrow> (Inr (), st\<lparr>log := log st @ [(Warning, ''no running scheduler'')]\<rparr>)
      | Some sch \<Rightarrow>
          if \<not> is_running st
          then (Inr (), st\<lparr>log := log st @ [(Warning, ''no running scheduler'')]\<rparr>)
          else (Inr (),
                st\<lparr>scheduler := Some (sch\<lparr>started := False\<rparr>), is_running := False,
                   log := log st @ [(Info, ''scheduler stopped'')]\<rparr>))"

definition the_jobs :: "scheduler_state \<Rightarrow> job list" where
  "the_jobs st = (case scheduler st of None \<Rightarrow> [] | Some sch \<Rightarrow> jobs sch)"

definition running_example :: scheduler_state where
  "running_example = snd (start 30 ''interval'' init_scheduler)"

text \<open>
  C10, as the code has it. A call of \<open>start\<close> while the scheduler is running returns without
  raising; it appends one warning to the log and changes nothing else (the scheduler object
  with its job, the interval, the mode and the running flag are as before). A call while it
  is not running returns without raising, stores the interval and the mode, sets the running
  flag and leaves a started scheduler with exactly one job, \<open>auto_trading_job\<close>, whose
  \<open>max_instances\<close> is 1.
\<close>

theorem start_running_is_noop_else_installs_one_job:
  "(is_running st \<longrightarrow>
      start interval stype st
        = (Inr (), st\<lparr>log := log st @ [(Warning, ''scheduler already running'')]\<rparr>))
   \<and> (\<not> is_running st \<longrightarrow>
      fst (start interval stype st) = Inr ()
      \<and> is_running (snd (start interval stype st))
      \<and> interval_seconds (snd (start interval stype st)) = interval
      \<and> schedule_type (snd (start interval stype st)) = stype
      \<and> length (the_jobs (snd (start interval stype st))) = 1
      \<and> map job_id (the_jobs (snd (start interval stype st))) = [''auto_trading_job'']
      \<and> map max_instances (the_jobs (snd (start interval stype st))) = [1])"
proof (cases "is_running st")
  case True
  then show ?thesis by (simp add: start_def)
next
  case False
  then show ?thesis
    by (simp add: start_def Let_def the_jobs_def add_job_def)
qed

theorem start_running_is_noop_else_installs_one_job_witness:
  "is_running running_example
   \<and> start 10 ''daily'' running_example
       = (Inr (), running_example\<lparr>log := log running_example
                                        @ [(Warning, ''scheduler already running'')]\<rparr>)
   \<and> \<not> is_running init_scheduler
   \<and> is_running (snd (start 30 ''interval'' init_scheduler))
   \<and> map max_instances (the_jobs (snd (start 30 ''interval'' init_scheduler))) = [1]"
proof -
  have r: "is_running running_example"
    by (simp add: running_example_def start_def init_scheduler_def Let_def)
  have n: "\<not> is_running init_scheduler"
    by (simp add: init_scheduler_def)
  from start_running_is_noop_else_installs_one_job [of running_example 10 "''daily''"] r
  have a: "start 10 ''daily'' running_example
       = (Inr (), running_example\<lparr>log := log running_example
                                        @ [(Warning, ''scheduler already running'')]\<rparr>)"
    by blast
  from start_running_is_noop_else_installs_one_job [of init_scheduler 30 "''interval''"] n
  have b: "is_running (snd (start 30 ''interval'' init_scheduler))
           \<and> map max_instances (the_jobs (snd (start 30 ''interval'' init_scheduler))) = [1]"
    by blast
  show ?thesis using r n a b by blast
qed

text \<open>
  The claim's "fails with an error" does not hold: on a running scheduler \<open>start\<close> ends by
  returning, with the stored schedule untouched.
\<close>

theorem start_while_running_returns_counterexample:
  "is_running running_example
   \<and> fst (start 10 ''daily'' running_example) = Inr ()
   \<and> interval_seconds (snd (start 10 ''daily'' running_example)) = 30
   \<and> schedule_type (snd (start 10 ''daily'' running_example)) = ''interval''"
  by (simp add: running_example_def start_def init_scheduler_def Let_def)

section \<open>Indicator strategies (strategies.py)\<close>

text \<open>
  \<open>market_data\<close> is the dictionary built by \<open>_get_market_data\<close>; the strategies read two
  of its keys, \<open>current_price\<close> and \<open>volume\<close>, each with \<open>.get(key, 0)\<close>.
\<close>

record market_data =
  md_current_price :: "real option"
  md_volume :: "real option"

definition get_current_price :: "market_data \<Rightarrow> real" where
  "get_current_price md = (case md_current_price md of None \<Rightarrow> 0 | Some p \<Rightarrow> p)"

definition get_volume :: "market_data \<Rightarrow> real" where
  "get_volume md = (case md_volume md of None \<Rightarrow> 0 | Some v \<Rightarrow> v)"

definition snapshot :: "real \<Rightarrow> real \<Rightarrow> market_data" where
  "snapshot p v = \<lparr>md_current_price = Some p, md_volume = Some v\<rparr>"

subsection \<open>MovingAverageCrossoverStrategy\<close>

record ma_crossover =
  short_period :: int
  long_period :: int
  ma_history :: "real list"

text \<open>
  The four averages of \<open>should_buy\<close> and \<open>should_sell\<close>, in the order the code computes
  them: \<open>short_ma\<close>, \<open>long_ma\<close>, \<open>prev_short_ma\<close>, \<open>prev_long_ma\<close>. The two previous
  averages fall back to the current ones when the history is not longer than the period.
\<close>

definition ma_averages :: "int \<Rightarrow> int \<Rightarrow> real list \<Rightarrow> py_error + (real \<times> real \<times> real \<times> real)" where
  "ma_averages short long h =
     and_then (py_mean (py_slice_from (- short) h) short) (\<lambda>short_ma.
     and_then (py_mean (py_slice_from (- long) h) long) (\<lambda>long_ma.
     and_then (if int (length h) > short
               then py_mean (py_slice (- short - 1) (- 1) h) short else Inr short_ma)
       (\<lambda>prev_short_ma.
     and_then (if int (length h) > long
               then py_mean (py_slice (- long - 1) (- 1) h) long else Inr long_ma)
       (\<lambda>prev_long_ma.
     Inr (short_ma, long_ma, prev_short_ma, prev_long_ma)))))"

definition ma_should_buy :: "market_data \<Rightarrow> ma_crossover \<Rightarrow> (py_error + bool) \<times> ma_crossover" where
  "ma_should_buy md s =
     (let current_price = get_current_price md in
      if current_price \<le> 0 then (Inr False, s)
      else
        let h1 = ma_history s @ [current_price];
            h = (if int (length h1) > long_period s then tl h1 else h1);
            s' = s\<lparr>ma_history := h\<rparr>
        in if int (length h) < long_period s then (Inr False, s')
           else (and_then (ma_averages (short_period s) (long_period s) h)
                   (\<lambda>(short_ma, long_ma, prev_short_ma, prev_long_ma).
                      Inr (short_ma > long_ma \<and> prev_short_ma \<le> prev_long_ma)), s'))"

definition ma_should_sell :: "market_data \<Rightarrow> ma_crossover \<Rightarrow> (py_error + bool) \<times> ma_crossover" where
  "ma_should_sell md s =
     (let current_price = get_current_price md; h = ma_history s in
      if current_price \<le> 0 then (Inr False, s)
      else if int (length h) < long_period s then (Inr False, s)
      else (and_then (ma_averages (short_period s) (long_period s) h)
              (\<lambda>(short_ma, long_ma, prev_short_ma, prev_long_ma).
                 Inr (short_ma < long_ma \<and> prev_short_ma \<ge> prev_long_ma)), s))"

text \<open>Successive evaluations of one strategy instance, one per price; the results in order.\<close>

fun ma_feed :: "ma_crossover \<Rightarrow> real list \<Rightarrow> (py_error + bool) list" where
  "ma_feed s [] = []"
| "ma_feed s (p # ps) =
     (case ma_should_buy (snapshot p 0) s of (r, s') \<Rightarrow> r # ma_feed s' ps)"

definition ma_default :: ma_crossover where
  "ma_default = \<lparr>short_period = 5, long_period = 20, ma_history = []\<rparr>"

text \<open>The moving average over the last \<open>n\<close> of the prices seen so far.\<close>

definition trailing_mean :: "nat \<Rightarrow> real list \<Rightarrow> real" where
  "trailing_mean n ps = sum_list (drop (length ps - n) ps) / real n"

subsection \<open>RSIStrategy.calculate_rsi\<close>

fun price_changes :: "real list \<Rightarrow> real list" where
  "price_changes (a # b # xs) = (b - a) # price_changes (b # xs)"
| "price_changes xs = []"

definition gains_of :: "real list \<Rightarrow> real list" where
  "gains_of prices = map (\<lambda>change. if change > 0 then change else 0) (price_changes prices)"

definition losses_of :: "real list \<Rightarrow> real list" where
  "losses_of prices = map (\<lambda>change. if change > 0 then 0 else \<bar>change\<bar>) (price_changes prices)"

definition calculate_rsi :: "int \<Rightarrow> real list \<Rightarrow> py_error + real" where
  "calculate_rsi period prices =
     (if int (length prices) < period + 1 then Inr 50
      else
        let gains = gains_of prices; losses = losses_of prices in
        if int (length gains) < period then Inr 50
        else
          and_then (py_mean (py_slice_from (- period) gains) period) (\<lambda>avg_gain.
          and_then (py_mean (py_slice_from (- period) losses) period) (\<lambda>avg_loss.
          if avg_loss = 0 then Inr 100
          else
            let rs = avg_gain / avg_loss in
            if 1 + rs = 0 then Inl ZeroDivisionError
            else Inr (100 - 100 / (1 + rs)))))"

subsection \<open>MomentumStrategy\<close>

record momentum =
  mo_period :: int
  momentum_threshold :: real
  mo_history :: "real list"

definition calculate_momentum :: "int \<Rightarrow> real list \<Rightarrow> py_error + real" where
  "calculate_momentum period prices =
     (if int (length prices) < period + 1 then Inr 0
      else
        and_then (py_index prices (- 1)) (\<lambda>current_price.
        and_then (py_index prices (- period - 1)) (\<lambda>past_price.
        if past_price = 0 then Inr 0
        else Inr ((current_price - past_price) / past_price))))"

text \<open>
  \<open>avg_volume\<close> is computed by the code from \<open>self.price_history\<close>:
  \<^verbatim>\<open>avg_volume = sum(self.price_history) / len(self.price_history) if self.price_history else 0\<close>
\<close>

definition mo_should_buy :: "market_data \<Rightarrow> momentum \<Rightarrow> (py_error + bool) \<times> momentum" where
  "mo_should_buy md s =
     (let current_price = get_current_price md in
      if current_price \<le> 0 then (Inr False, s)
      else
        let h1 = mo_history s @ [current_price];
            h = (if int (length h1) > mo_period s * 2 then tl h1 else h1);
            s' = s\<lparr>mo_history := h\<rparr>
        in if int (length h) < mo_period s + 1 then (Inr False, s')
           else (and_then (calculate_momentum (mo_period s) h) (\<lambda>mom.
                   let volume = get_volume md;
                       avg_volume = (if h = [] then 0 else sum_list h / real (length h))
                   in Inr (mom > momentum_threshold s \<and> volume > avg_volume * 0.8)), s'))"

definition mo_should_sell :: "market_data \<Rightarrow> momentum \<Rightarrow> (py_error + bool) \<times> momentum" where
  "mo_should_sell md s =
     (let current_price = get_current_price md; h = mo_history s in
      if current_price \<le> 0 then (Inr False, s)
      else if int (length h) < mo_period s + 1 then (Inr False, s)
      else (and_then (calculate_momentum (mo_period s) h) (\<lambda>mom.
              Inr (mom < - momentum_threshold s)), s))"

text \<open>Successive evaluations, one per snapshot (price, volume).\<close>

fun mo_feed :: "momentum \<Rightarrow> (real \<times> real) list \<Rightarrow> (py_error + bool) list" where
  "mo_feed s [] = []"
| "mo_feed s ((p, v) # ps) =
     (case mo_should_buy (snapshot p v) s of (r, s') \<Rightarrow> r # mo_feed s' ps)"

definition mo_default :: momentum where
  "mo_default = \<lparr>mo_period = 10, momentum_threshold = 0.05, mo_history = []\<rparr>"

section \<open>RSI: range and saturation\<close>

lemma gains_nonneg: "x \<in> set (gains_of prices) \<Longrightarrow> 0 \<le> x"
  by (auto simp: gains_of_def)

lemma losses_nonneg: "x \<in> set (losses_of prices) \<Longrightarrow> 0 \<le> x"
  by (auto simp: losses_of_def)

lemma sum_slice_nonneg:
  assumes "\<And>x. x \<in> set xs \<Longrightarrow> (0::real) \<le> x"
  shows "0 \<le> sum_list (py_slice_from i xs)"
proof -
  have "set (py_slice_from i xs) \<subseteq> set xs"
    by (simp add: py_slice_from_def set_drop_subset)
  then show ?thesis using assms by (intro sum_list_nonneg) auto
qed

lemma price_changes_sorted: "sorted prices \<Longrightarrow> x \<in> set (price_changes prices) \<Longrightarrow> 0 \<le> x"
  by (induction prices rule: price_changes.induct) auto

lemma losses_sorted_zero: "sorted prices \<Longrightarrow> x \<in> set (losses_of prices) \<Longrightarrow> x = 0"
  using price_changes_sorted by (fastforce simp: losses_of_def)

lemma all_zero_sum: "(\<And>x. x \<in> set ys \<Longrightarrow> x = (0::real)) \<Longrightarrow> sum_list ys = 0"
  by (induction ys) auto

lemma sum_slice_zero:
  assumes "\<And>x. x \<in> set xs \<Longrightarrow> x = (0::real)"
  shows "sum_list (py_slice_from i xs) = 0"
proof -
  have "set (py_slice_from i xs) \<subseteq> set xs"
    by (simp add: py_slice_from_def set_drop_subset)
  then show ?thesis using assms by (intro all_zero_sum) auto
qed

lemma rsi_formula_bounds:
  assumes "(0::real) \<le> g" and "0 < l"
  shows "1 + g / l \<noteq> 0" and "0 \<le> 100 - 100 / (1 + g / l)" and "100 - 100 / (1 + g / l) \<le> 100"
proof -
  have rs: "0 \<le> g / l" using assms by simp
  then have pos: "1 \<le> 1 + g / l" by simp
  then show "1 + g / l \<noteq> 0" by simp
  from pos have "100 / (1 + g / l) \<le> 100" by (simp add: divide_le_eq)
  then show "0 \<le> 100 - 100 / (1 + g / l)" by simp
  from pos have "0 \<le> 100 / (1 + g / l)" by simp
  then show "100 - 100 / (1 + g / l) \<le> 100" by simp
qed

text \<open>
  C9, as the code has it. For every period other than 0 (the value of \<open>rsi_period\<close>; 14 by
  default) and every price sequence, \<open>calculate_rsi\<close> returns a number (no division by zero is raised) and the
  number lies in \<open>[0, 100]\<close>; for a price sequence that never falls, of length at least
  \<open>period + 1\<close>, it returns exactly 100.
\<close>

theorem calculate_rsi_range:
  assumes "period \<noteq> 0"
  shows "\<exists>r. calculate_rsi period prices = Inr r \<and> 0 \<le> r \<and> r \<le> 100
           \<and> (sorted prices \<and> period + 1 \<le> int (length prices) \<longrightarrow> r = 100)"
proof -
  define g where "g = sum_list (py_slice_from (- period) (gains_of prices))"
  define l where "l = sum_list (py_slice_from (- period) (losses_of prices))"
  define p where "p = real_of_int period"
  have p: "p \<noteq> 0" using assms by (simp add: p_def)
  have g0: "0 \<le> g" unfolding g_def by (rule sum_slice_nonneg) (rule gains_nonneg)
  have l0: "0 \<le> l" unfolding l_def by (rule sum_slice_nonneg) (rule losses_nonneg)
  have lz: "l = 0" if "sorted prices"
    unfolding l_def using that by (intro sum_slice_zero) (rule losses_sorted_zero)
  have len: "length (gains_of prices) = length prices - 1"
    by (induction prices rule: price_changes.induct) (auto simp: gains_of_def)
  have ratio: "(g / p) / (l / p) = g / l" using p by simp
  show ?thesis
  proof (cases "int (length prices) < period + 1 \<or> int (length (gains_of prices)) < period")
    case True
    then have "calculate_rsi period prices = Inr 50"
      by (auto simp: calculate_rsi_def Let_def)
    moreover have "\<not> (sorted prices \<and> period + 1 \<le> int (length prices))"
      using True len by auto
    ultimately show ?thesis by auto
  next
    case False
    show ?thesis
    proof (cases "l = 0")
      case True
      with False assms have "calculate_rsi period prices = Inr 100"
        by (simp add: calculate_rsi_def Let_def py_mean_def and_then_def l_def)
      then show ?thesis by simp
    next
      case nz: False
      with l0 have lpos: "0 < l" by simp
      from nz p have "l / p \<noteq> 0" by simp
      with False assms rsi_formula_bounds(1) [OF g0 lpos]
      have "calculate_rsi period prices = Inr (100 - 100 / (1 + g / l))"
        by (simp add: calculate_rsi_def Let_def py_mean_def and_then_def
            g_def [symmetric] l_def [symmetric] p_def [symmetric])
      moreover have "\<not> sorted prices" using lz nz by blast
      ultimately show ?thesis using rsi_formula_bounds(2,3) [OF g0 lpos] by simp
    qed
  qed
qed

theorem calculate_rsi_range_witness:
  "calculate_rsi 14 [1, 2, 3, 4, 5, 6, 7, 8, 9, 10, 11, 12, 13, 14, 15] = Inr 100
   \<and> (\<exists>r. calculate_rsi 2 [3, 2, 3, 1] = Inr r \<and> 0 \<le> r \<and> r \<le> 100)"
proof -
  have s: "sorted [1, 2, 3, 4, 5, 6, 7, 8, 9, 10, 11, 12, 13, 14, 15 :: real]
           \<and> (14::int) + 1 \<le> int (length [1, 2, 3, 4, 5, 6, 7, 8, 9, 10, 11, 12, 13, 14, 15 :: real])"
    by simp
  have "(14::int) \<noteq> 0" by simp
  from calculate_rsi_range [OF this, of "[1, 2, 3, 4, 5, 6, 7, 8, 9, 10, 11, 12, 13, 14, 15]"] s
  have a: "calculate_rsi 14 [1, 2, 3, 4, 5, 6, 7, 8, 9, 10, 11, 12, 13, 14, 15] = Inr 100"
    by blast
  have "(2::int) \<noteq> 0" by simp
  from calculate_rsi_range [OF this, of "[3, 2, 3, 1]"]
  have b: "\<exists>r. calculate_rsi 2 [3, 2, 3, 1] = Inr r \<and> 0 \<le> r \<and> r \<le> 100"
    by blast
  show ?thesis using a b by blast
qed

text \<open>
  The period is read from the configuration (\<open>config.get("rsi_period", 14)\<close>) and nothing
  checks it (\<open>BaseStrategy.validate_config\<close> returns \<open>True\<close>). With the period 0 and
  three prices both length checks pass, \<open>gains[-0:]\<close> is the whole list, and
  \<open>sum(...) / self.period\<close> raises ZeroDivisionError.
\<close>

theorem calculate_rsi_zero_period_counterexample:
  "calculate_rsi 0 [1, 2, 3] = Inl ZeroDivisionError"
  by code_simp

section \<open>Moving-average crossover: when should_buy fires\<close>

text \<open>
  C3 on the code. With the default periods (5 and 20) and the prices 90, nineteen times 100,
  then 101 and 104, the 20th, 21st and 22nd evaluations have a full history. The fast average
  is above the slow one at all three (100 > 99.5, 100.2 > 100.05, 101 > 100.25), so there is
  no crossing at the 21st or the 22nd; \<open>should_buy\<close> returns true at both. The history is
  cut to \<open>long_period\<close> entries before the averages are taken, so the previous slow average
  is never computed and the previous fast average is compared with the current slow one.
\<close>

theorem ma_should_buy_refires_without_crossing:
  "drop 19 (ma_feed ma_default ([90] @ replicate 19 100 @ [101, 104]))
     = [Inr False, Inr True, Inr True]
   \<and> trailing_mean 5 ([90] @ replicate 19 100) > trailing_mean 20 ([90] @ replicate 19 100)
   \<and> trailing_mean 5 ([90] @ replicate 19 100 @ [101])
       > trailing_mean 20 ([90] @ replicate 19 100 @ [101])
   \<and> trailing_mean 5 ([90] @ replicate 19 100 @ [101, 104])
       > trailing_mean 20 ([90] @ replicate 19 100 @ [101, 104])"
  by code_simp

section \<open>Momentum: the volume gate of should_buy\<close>

text \<open>
  C4 on the code. First input: eleven snapshots, prices 10000 to 11000 in steps of 100, volume
  1000 in each. The trailing change is 10 percent, above the 5 percent threshold, and the
  current volume equals the average volume, yet \<open>should_buy\<close> returns false at the 11th
  evaluation: the code compares the volume with 0.8 times the average of the prices. Second
  input: prices 100 to 110, volume 1000000 in the first ten snapshots and 90 in the last;
  the current volume is far below 80 percent of the average volume and \<open>should_buy\<close>
  returns true.
\<close>

theorem mo_should_buy_gates_volume_on_prices:
  "last (mo_feed mo_default
           (map (\<lambda>p. (p, 1000))
              [10000, 10100, 10200, 10300, 10400, 10500, 10600, 10700, 10800, 10900, 11000]))
     = Inr False
   \<and> calculate_momentum 10
        [10000, 10100, 10200, 10300, 10400, 10500, 10600, 10700, 10800, 10900, 11000]
       = Inr (1 / 10)
   \<and> (1000::real) \<ge> 0.8 * (sum_list (replicate 11 1000) / 11)
   \<and> last (mo_feed mo_default
             (zip [100, 101, 102, 103, 104, 105, 106, 107, 108, 109, 110]
                  (replicate 10 1000000 @ [90])))
       = Inr True
   \<and> (90::real) < 0.8 * (sum_list (replicate 10 1000000 @ [90]) / 11)"
  by code_simp

section \<open>BaseStrategy and the strategy engine (strategy_engine.py)\<close>

text \<open>
  A signal is the dictionary returned by \<open>on_buy_signal\<close> and \<open>on_sell_signal\<close>.
\<close>

record signal =
  action :: string
  sig_stock_code :: string
  quantity :: int
  price :: real
  sig_order_type :: string

text \<open>
  A strategy object: the abstract methods of \<open>BaseStrategy\<close> as functions, the two deciding
  ones over the object's own mutable state \<open>'s\<close> (the price histories). A method that raises
  returns \<open>Inl\<close>; the state it had reached is kept, as a mutation before a raise is.
  \<open>st_initialize_price_history\<close> is \<open>None\<close> when the class has no
  \<open>_initialize_price_history\<close> (the engine asks with \<open>hasattr\<close>).
\<close>

record 's strategy =
  st_name :: string
  st_is_active :: bool
  st_config :: config
  st_should_buy :: "string \<Rightarrow> market_data \<Rightarrow> 's \<Rightarrow> (py_error + bool) \<times> 's"
  st_should_sell :: "string \<Rightarrow> market_data \<Rightarrow> 's \<Rightarrow> (py_error + bool) \<times> 's"
  st_calculate_buy_quantity :: "string \<Rightarrow> real \<Rightarrow> real \<Rightarrow> py_error + int"
  st_calculate_buy_price :: "string \<Rightarrow> market_data \<Rightarrow> py_error + real"
  st_calculate_sell_price :: "string \<Rightarrow> market_data \<Rightarrow> py_error + real"
  st_initialize_price_history :: "(string \<Rightarrow> 's \<Rightarrow> 's) option"
  st_state :: 's

definition get_order_type :: "config \<Rightarrow> string" where
  "get_order_type cfg = (case order_type cfg of None \<Rightarrow> ''00'' | Some t \<Rightarrow> t)"

text \<open>
  The \<open>try\<close> block of \<open>on_buy_signal\<close>; its \<open>except Exception\<close> returns \<open>None\<close>.
\<close>

definition buy_signal_body :: "string \<Rightarrow> market_data \<Rightarrow> 's strategy \<Rightarrow> signal option" where
  "buy_signal_body stock_code md s =
     (let current_price = get_current_price md in
      if current_price \<le> 0 then None
      else
        let balance = (case available_balance (st_config s) of None \<Rightarrow> 0 | Some b \<Rightarrow> b) in
        case st_calculate_buy_quantity s stock_code balance current_price of
          Inl e \<Rightarrow> None
        | Inr qty \<Rightarrow>
            (case st_calculate_buy_price s stock_code md of
               Inl e \<Rightarrow> None
             | Inr pr \<Rightarrow>
                 if qty \<le> 0 then None
                 else Some \<lparr>action = ''BUY'', sig_stock_code = stock_code, quantity = qty,
                            price = pr, sig_order_type = get_order_type (st_config s)\<rparr>))"

definition on_buy_signal ::
  "string \<Rightarrow> market_data \<Rightarrow> 's strategy \<Rightarrow> (py_error + signal option) \<times> 's strategy" where
  "on_buy_signal stock_code md s =
     (case st_should_buy s stock_code md (st_state s) of
        (r, state') \<Rightarrow>
          let s' = s\<lparr>st_state := state'\<rparr> in
          (case r of
             Inl e \<Rightarrow> (Inl e, s')
           | Inr fire \<Rightarrow>
               if \<not> fire then (Inr None, s') else (Inr (buy_signal_body stock_code md s'), s')))"

definition sell_signal_body :: "string \<Rightarrow> market_data \<Rightarrow> int \<Rightarrow> 's strategy \<Rightarrow> signal option" where
  "sell_signal_body stock_code md holding_quantity s =
     (case st_calculate_sell_price s stock_code md of
        Inl e \<Rightarrow> None
      | Inr pr \<Rightarrow>
          let qty = min holding_quantity
                      (case max_sell_quantity (st_config s) of
                         None \<Rightarrow> holding_quantity | Some m \<Rightarrow> m)
          in Some \<lparr>action = ''SELL'', sig_stock_code = stock_code, quantity = qty,
                   price = pr, sig_order_type = get_order_type (st_config s)\<rparr>)"

definition on_sell_signal ::
  "string \<Rightarrow> market_data \<Rightarrow> int \<Rightarrow> 's strategy \<Rightarrow> (py_error + signal option) \<times> 's strategy" where
  "on_sell_signal stock_code md holding_quantity s =
     (case st_should_sell s stock_code md (st_state s) of
        (r, state') \<Rightarrow>
          let s' = s\<lparr>st_state := state'\<rparr> in
          (case r of
             Inl e \<Rightarrow> (Inl e, s')
           | Inr fire \<Rightarrow>
               if \<not> fire then (Inr None, s')
               else if holding_quantity \<le> 0 then (Inr None, s')
               else (Inr (sell_signal_body stock_code md holding_quantity s'), s')))"

text \<open>
  The engine's registry \<open>self.strategies\<close>. \<open>_get_market_data\<close> asks the brokerage; what it
  answers for a symbol is the parameter \<open>get_md\<close> (\<open>None\<close> when the call failed).
\<close>

type_synonym 's engine = "string \<rightharpoonup> 's strategy"

definition register_strategy :: "'s strategy \<Rightarrow> 's engine \<Rightarrow> 's engine" where
  "register_strategy s eng = eng(st_name s \<mapsto> s)"

definition execute_strategy ::
  "(string \<Rightarrow> market_data option) \<Rightarrow> string \<Rightarrow> string \<Rightarrow> 's engine
     \<Rightarrow> signal option \<times> 's engine" where
  "execute_strategy get_md strategy_name stock_code eng =
     (case eng strategy_name of
        None \<Rightarrow> (None, eng)
      | Some s \<Rightarrow>
          if \<not> st_is_active s then (None, eng)
          else
            let s1 = (case st_initialize_price_history s of
                        None \<Rightarrow> s
                      | Some init \<Rightarrow> s\<lparr>st_state := init stock_code (st_state s)\<rparr>)
            in
            (case get_md stock_code of
               None \<Rightarrow> (None, eng(strategy_name \<mapsto> s1))
             | Some md \<Rightarrow>
                 (case on_buy_signal stock_code md s1 of
                    (Inl e, s2) \<Rightarrow> (None, eng(strategy_name \<mapsto> s2))
                  | (Inr (Some buy_signal), s2) \<Rightarrow> (Some buy_signal, eng(strategy_name \<mapsto> s2))
                  | (Inr None, s2) \<Rightarrow>
                      (case on_sell_signal stock_code md 0 s2 of
                         (Inl e, s3) \<Rightarrow> (None, eng(strategy_name \<mapsto> s3))
                       | (Inr (Some sell_signal), s3) \<Rightarrow>
                           (Some sell_signal, eng(strategy_name \<mapsto> s3))
                       | (Inr None, s3) \<Rightarrow> (None, eng(strategy_name \<mapsto> s3))))))"

text \<open>A moving-average crossover instance as a strategy object.\<close>

definition ma_strategy :: "string \<Rightarrow> config \<Rightarrow> ma_crossover \<Rightarrow> ma_crossover strategy" where
  "ma_strategy n cfg st =
     \<lparr>st_name = n, st_is_active = True, st_config = cfg,
      st_should_buy = (\<lambda>stock_code md h. ma_should_buy md h),
      st_should_sell = (\<lambda>stock_code md h. ma_should_sell md h),
      st_calculate_buy_quantity =
        (\<lambda>stock_code balance current_price.
           calculate_buy_quantity MovingAverageCrossover cfg stock_code
             (Finite balance) (Finite current_price)),
      st_calculate_buy_price = (\<lambda>stock_code md. Inr (get_current_price md)),
      st_calculate_sell_price = (\<lambda>stock_code md. Inr (get_current_price md)),
      st_initialize_price_history = None,
      st_state = st\<rparr>"

definition funded_config :: config where
  "funded_config = default_config\<lparr>available_balance := Some 1000000\<rparr>"

text \<open>
  Two instances for the examples: \<open>quick\<close> has periods 1 and 2 and has seen the price 1,
  \<open>slow\<close> has the default periods and an empty history.
\<close>

definition example_engine :: "ma_crossover engine" where
  "example_engine =
     register_strategy
       (ma_strategy ''slow'' funded_config ma_default)
       (register_strategy
          (ma_strategy ''quick'' funded_config
             \<lparr>short_period = 1, long_period = 2, ma_history = [1]\<rparr>)
          Map.empty)"

definition example_quote :: "string \<Rightarrow> market_data option" where
  "example_quote stock_code = Some (snapshot 2 1000)"

section \<open>The engine never emits a sell signal\<close>

lemma buy_signal_body_action:
  "buy_signal_body stock_code md s = Some sg \<Longrightarrow> action sg = ''BUY''"
  by (auto simp: buy_signal_body_def Let_def split: if_splits sum.splits)

lemma on_buy_signal_action:
  assumes "fst (on_buy_signal stock_code md s) = Inr (Some sg)"
  shows "action sg = ''BUY''"
proof -
  obtain r state' where sb: "st_should_buy s stock_code md (st_state s) = (r, state')"
    by (cases "st_should_buy s stock_code md (st_state s)")
  with assms have "buy_signal_body stock_code md (s\<lparr>st_state := state'\<rparr>) = Some sg"
    by (auto simp: on_buy_signal_def Let_def split: sum.splits if_splits)
  then show ?thesis by (rule buy_signal_body_action)
qed

lemma on_sell_signal_no_holding:
  assumes "holding_quantity \<le> 0"
  shows "fst (on_sell_signal stock_code md holding_quantity s) \<noteq> Inr (Some sg)"
proof -
  obtain r state' where "st_should_sell s stock_code md (st_state s) = (r, state')"
    by (cases "st_should_sell s stock_code md (st_state s)")
  with assms show ?thesis
    by (auto simp: on_sell_signal_def Let_def split: sum.splits)
qed

text \<open>
  C2. For every registry, strategy name and symbol, and whatever the brokerage answers, the
  result of \<open>execute_strategy\<close> is either no signal or a signal whose action is BUY; and
  \<open>on_sell_signal\<close> returns no signal whenever the holding quantity is at most 0, which is
  the quantity \<open>execute_strategy\<close> passes.
\<close>

theorem execute_strategy_only_buys:
  "(fst (execute_strategy get_md strategy_name stock_code eng) = None
    \<or> (\<exists>sg. fst (execute_strategy get_md strategy_name stock_code eng) = Some sg
             \<and> action sg = ''BUY''))
   \<and> (holding_quantity \<le> 0 \<longrightarrow>
        (\<forall>sg. fst (on_sell_signal stock_code md holding_quantity s) \<noteq> Inr (Some sg)))"
proof (intro conjI impI allI)
  fix sg assume "holding_quantity \<le> 0"
  then show "fst (on_sell_signal stock_code md holding_quantity s) \<noteq> Inr (Some sg)"
    by (rule on_sell_signal_no_holding)
next
  show "fst (execute_strategy get_md strategy_name stock_code eng) = None
    \<or> (\<exists>sg. fst (execute_strategy get_md strategy_name stock_code eng) = Some sg
             \<and> action sg = ''BUY'')"
  proof (cases "fst (execute_strategy get_md strategy_name stock_code eng)")
    case None
    then show ?thesis by simp
  next
    case (Some sg)
    have "action sg = ''BUY''"
    proof (cases "eng strategy_name")
      case None
      with Some show ?thesis by (simp add: execute_strategy_def)
    next
      case st: (Some s0)
      define s1 where "s1 = (case st_initialize_price_history s0 of
                        None \<Rightarrow> s0
                      | Some init \<Rightarrow> s0\<lparr>st_state := init stock_code (st_state s0)\<rparr>)"
      from Some st obtain m where md: "get_md stock_code = Some m" and act: "st_is_active s0"
        by (cases "get_md stock_code")
           (auto simp: execute_strategy_def Let_def split: if_splits)
      obtain rb s2 where ob: "on_buy_signal stock_code m s1 = (rb, s2)"
        by (cases "on_buy_signal stock_code m s1")
      obtain rs s3 where os: "on_sell_signal stock_code m 0 s2 = (rs, s3)"
        by (cases "on_sell_signal stock_code m 0 s2")
      have nosell: "rs \<noteq> Inr (Some sg)"
        using on_sell_signal_no_holding [of 0 stock_code m s2 sg] os by simp
      from Some st md act ob os nosell have "rb = Inr (Some sg)"
        by (auto simp: execute_strategy_def Let_def s1_def [symmetric]
            split: sum.splits option.splits)
      with ob on_buy_signal_action [of stock_code m s1 sg] show ?thesis by simp
    qed
    with Some show ?thesis by simp
  qed
qed

theorem execute_strategy_only_buys_witness:
  "(\<exists>sg. fst (execute_strategy example_quote ''quick'' ''005930'' example_engine) = Some sg
         \<and> action sg = ''BUY'')
   \<and> (0::int) \<le> 0
   \<and> (\<forall>sg. fst (on_sell_signal ''005930'' (snapshot 2 1000) 0
                   (ma_strategy ''quick'' funded_config ma_default)) \<noteq> Inr (Some sg))"
proof -
  have fired: "fst (execute_strategy example_quote ''quick'' ''005930'' example_engine) \<noteq> None"
    by code_simp
  from execute_strategy_only_buys
    [of example_quote "''quick''" "''005930''" example_engine 0 "snapshot 2 1000"
        "ma_strategy ''quick'' funded_config ma_default"]
  show ?thesis using fired by simp
qed

section \<open>The auto-trading cycle (scheduler.py, _execute_auto_trading)\<close>

text \<open>
  A row of the \<open>strategies\<close> table, with the keys of \<open>auto_selection_config\<close> the cycle
  reads (\<open>None\<close> for an absent key).
\<close>

record strategy_row =
  row_name :: string
  row_strategy_type :: string
  row_config :: config
  stock_selection_mode :: string
  ranking_type :: "string option"
  rank_limit :: "int option"

text \<open>
  What a ranking call gives: it raises, or it returns the \<open>mksc_shrn_iscd\<close> of each item of
  \<open>output\<close> (the empty string for an item without it, the empty list for no output).
\<close>

datatype rank_result = RankRaises | RankOutput "string list"

text \<open>
  The collaborators of one cycle: the active watchlist, the ranking calls by ranking type,
  the quote for a symbol, and \<open>create_strategy\<close>.
\<close>

record 's market_env =
  watchlist :: "string list"
  rank :: "string \<Rightarrow> rank_result"
  quote :: "string \<Rightarrow> market_data option"
  create_strategy :: "string \<Rightarrow> config \<Rightarrow> py_error + 's strategy"

text \<open>
  The state of a cycle: the engine, the list \<open>all_signals\<close>, and every call of
  \<open>place_order\<close> in order (a call that raises is caught and logged, so it is a submission
  like any other).
\<close>

record 's cycle =
  cy_engine :: "'s engine"
  all_signals :: "signal list"
  submitted :: "signal list"

text \<open>The symbols of a row; \<open>None\<close> where the code does \<open>continue\<close>.\<close>

definition select_stock_codes :: "'s market_env \<Rightarrow> strategy_row \<Rightarrow> string list option" where
  "select_stock_codes env row =
     (if stock_selection_mode row = ''watchlist'' then Some (watchlist env)
      else if stock_selection_mode row = ''auto'' \<or> stock_selection_mode row = ''ranking'' then
        let rtype = (case ranking_type row of None \<Rightarrow> ''volume'' | Some t \<Rightarrow> t);
            limit = (case rank_limit row of None \<Rightarrow> 10 | Some l \<Rightarrow> l)
        in if rtype \<noteq> ''volume'' \<and> rtype \<noteq> ''fluctuation'' \<and> rtype \<noteq> ''market_cap''
           then None
           else (case rank env rtype of
                   RankRaises \<Rightarrow> None
                 | RankOutput items \<Rightarrow>
                     if items = [] then None
                     else Some (filter (\<lambda>code. code \<noteq> []) (py_slice 0 limit items)))
      else Some [])"

text \<open>
  The registration of a row the engine does not know; \<open>None\<close> where it fails and the code
  does \<open>continue\<close>.
\<close>

definition ensure_registered :: "'s market_env \<Rightarrow> strategy_row \<Rightarrow> 's engine \<Rightarrow> 's engine option" where
  "ensure_registered env row eng =
     (case eng (row_name row) of
        Some s \<Rightarrow> Some eng
      | None \<Rightarrow>
          (case create_strategy env (row_strategy_type row) (row_config row) of
             Inl e \<Rightarrow> None
           | Inr inst \<Rightarrow>
               Some (register_strategy (inst\<lparr>st_name := row_name row, st_is_active := True\<rparr>) eng)))"

text \<open>\<open>for stock_code in stock_codes\<close>: execute, and append a signal to \<open>all_signals\<close>.\<close>

fun execute_codes :: "'s market_env \<Rightarrow> string \<Rightarrow> string list \<Rightarrow> 's cycle \<Rightarrow> 's cycle" where
  "execute_codes env n [] c = c"
| "execute_codes env n (stock_code # rest) c =
     (case execute_strategy (quote env) n stock_code (cy_engine c) of
        (None, eng') \<Rightarrow> execute_codes env n rest (c\<lparr>cy_engine := eng'\<rparr>)
      | (Some sg, eng') \<Rightarrow>
          execute_codes env n rest (c\<lparr>cy_engine := eng', all_signals := all_signals c @ [sg]\<rparr>))"

text \<open>\<open>for signal in all_signals\<close>: one call of \<open>place_order\<close> each.\<close>

fun submit_signals :: "signal list \<Rightarrow> 's cycle \<Rightarrow> 's cycle" where
  "submit_signals [] c = c"
| "submit_signals (sg # rest) c = submit_signals rest (c\<lparr>submitted := submitted c @ [sg]\<rparr>)"

text \<open>
  One pass of \<open>for strategy in active_strategies\<close>. The submission loop stands inside this
  loop, after the execution loop, and reads the whole of \<open>all_signals\<close>.
\<close>

definition strategy_iteration :: "'s market_env \<Rightarrow> strategy_row \<Rightarrow> 's cycle \<Rightarrow> 's cycle" where
  "strategy_iteration env row c =
     (case select_stock_codes env row of
        None \<Rightarrow> c
      | Some stock_codes \<Rightarrow>
          if stock_codes = [] then c
          else
            (case ensure_registered env row (cy_engine c) of
               None \<Rightarrow> c
             | Some eng' \<Rightarrow>
                 let c1 = execute_codes env (row_name row) stock_codes (c\<lparr>cy_engine := eng'\<rparr>)
                 in submit_signals (all_signals c1) c1))"

fun run_rows :: "'s market_env \<Rightarrow> strategy_row list \<Rightarrow> 's cycle \<Rightarrow> 's cycle" where
  "run_rows env [] c = c"
| "run_rows env (row # rows) c = run_rows env rows (strategy_iteration env row c)"

definition execute_auto_trading ::
  "'s market_env \<Rightarrow> bool \<Rightarrow> strategy_row list \<Rightarrow> 's engine \<Rightarrow> 's cycle" where
  "execute_auto_trading env market_status active_strategies eng =
     (let c0 = \<lparr>cy_engine = eng, all_signals = [], submitted = []\<rparr> in
      if \<not> market_status then c0
      else if active_strategies = [] then c0
      else run_rows env active_strategies c0)"

definition watchlist_row :: "string \<Rightarrow> strategy_row" where
  "watchlist_row n =
     \<lparr>row_name = n, row_strategy_type = ''moving_average_crossover'',
      row_config = funded_config, stock_selection_mode = ''watchlist'',
      ranking_type = None, rank_limit = None\<rparr>"

definition example_env :: "ma_crossover market_env" where
  "example_env =
     \<lparr>watchlist = [''005930''], rank = (\<lambda>t. RankRaises), quote = example_quote,
      create_strategy = (\<lambda>t cfg. Inr (ma_strategy ''moving average crossover'' cfg ma_default))\<rparr>"

definition example_signal :: signal where
  "example_signal =
     \<lparr>action = ''BUY'', sig_stock_code = ''005930'', quantity = 50000, price = 2,
      sig_order_type = ''00''\<rparr>"

section \<open>How often the cycle submits a signal\<close>

text \<open>
  C1 on the code. Two active rows, \<open>quick\<close> and \<open>slow\<close>, both on the watchlist of one
  symbol; \<open>quick\<close> produces one BUY signal and \<open>slow\<close> none. The cycle ends with that one
  signal in \<open>all_signals\<close> and two calls of \<open>place_order\<close> for it: the submission loop of
  the second row's pass submits the first row's signal again.
\<close>

theorem execute_auto_trading_submits_signal_twice:
  "all_signals (execute_auto_trading example_env True
                  [watchlist_row ''quick'', watchlist_row ''slow''] example_engine)
     = [example_signal]
   \<and> submitted (execute_auto_trading example_env True
                  [watchlist_row ''quick'', watchlist_row ''slow''] example_engine)
     = [example_signal, example_signal]"
  by code_simp

section \<open>The brokerage client (kis_client.py)\<close>

subsection \<open>Token state and the token file\<close>

text \<open>
  Times are seconds on one clock; a call reads the clock once (\<open>now\<close>). A token value is
  Python's \<open>Optional[str]\<close>; \<open>truthy\<close> is its truth value (\<open>None\<close> and the empty string
  are false). The token file holds a token and a \<open>valid-date\<close> that is absent, unparsable
  or a time; \<open>token_file = None\<close> stands for a file that is missing, unreadable or without
  a \<open>token\<close> key. Writing the file is taken to succeed. \<open>issue_requests\<close> and
  \<open>http_requests\<close> count the POSTs to the token endpoint and the data requests sent.
\<close>

definition truthy :: "string option \<Rightarrow> bool" where
  "truthy t = (case t of None \<Rightarrow> False | Some s \<Rightarrow> s \<noteq> [])"

datatype valid_date = NoValidDate | UnparsableDate | ValidDate int

record token_record =
  tf_token :: string
  tf_valid_date :: valid_date

record kis_client =
  access_token :: "string option"
  token_expires_at :: "int option"
  app_key :: string
  app_secret :: string
  token_file :: "token_record option"
  issue_requests :: nat
  http_requests :: nat

definition load_token_from_file :: "int \<Rightarrow> kis_client \<Rightarrow> string option \<times> kis_client" where
  "load_token_from_file now c =
     (case token_file c of
        None \<Rightarrow> (None, c)
      | Some r \<Rightarrow>
          (case tf_valid_date r of
             NoValidDate \<Rightarrow> (Some (tf_token r), c)
           | UnparsableDate \<Rightarrow> (None, c)
           | ValidDate d \<Rightarrow>
               if d > now
               then (Some (tf_token r),
                     c\<lparr>access_token := Some (tf_token r), token_expires_at := Some d\<rparr>)
               else (None, c)))"

definition is_token_valid :: "int \<Rightarrow> kis_client \<Rightarrow> bool" where
  "is_token_valid now c =
     (if \<not> truthy (access_token c) then False
      else (case token_expires_at c of None \<Rightarrow> False | Some e \<Rightarrow> now < e))"

definition save_token_to_file :: "string \<Rightarrow> int \<Rightarrow> kis_client \<Rightarrow> kis_client" where
  "save_token_to_file token expires_at c =
     c\<lparr>token_file := Some \<lparr>tf_token = token, tf_valid_date = ValidDate expires_at\<rparr>\<rparr>"

subsection \<open>The brokerage as seen by one call\<close>

text \<open>
  What the transport gives for a request: no connection, a timeout, or a response with its
  status and body. The brokerage answers the \<open>n\<close>-th token request and the \<open>n\<close>-th data
  request of the client as \<open>token_server n\<close> and \<open>data_server n\<close>.
\<close>

datatype http_outcome = ConnectFails | TimesOut | Reply nat body

record brokerage =
  now :: int
  token_server :: "nat \<Rightarrow> http_outcome"
  data_server :: "nat \<Rightarrow> http_outcome"

fun contains :: "string \<Rightarrow> string \<Rightarrow> bool" where
  "contains needle [] = (needle = [])"
| "contains needle (ch # rest) =
     (take (length needle) (ch # rest) = needle \<or> contains needle rest)"

text \<open>
  \<open>needle in value\<close> on a field: \<open>None\<close> where it raises TypeError.
\<close>

definition in_test :: "string \<Rightarrow> json_field \<Rightarrow> bool option" where
  "in_test needle field =
     (case field of
        Missing \<Rightarrow> Some (contains needle [])
      | Text s \<Rightarrow> Some (contains needle s)
      | Untestable \<Rightarrow> None
      | Collection member \<Rightarrow> Some member)"

text \<open>The UTF-8 bytes of the phrase for "once per minute" that the client searches for.\<close>

definition once_per_minute :: string where
  "once_per_minute =
     [CHR 0x31, CHR 0xEB, CHR 0xB6, CHR 0x84, CHR 0xEB, CHR 0x8B, CHR 0xB9, CHR 0x20,
      CHR 0x31, CHR 0xED, CHR 0x9A, CHR 0x8C]"

text \<open>
  The test \<open>"EGW00133" in error_code or "..." in error_desc\<close> on a parsed body, with
  Python's \<open>or\<close>: the second test is evaluated only when the first is false. \<open>None\<close>
  where the test raises something other than a ValueError (swallowed by the bare
  \<open>except\<close>): the body is no JSON object, or a test that is evaluated raises TypeError.
\<close>

definition rate_limit_test :: "body \<Rightarrow> bool option" where
  "rate_limit_test b =
     (case b of
        NotJson \<Rightarrow> None
      | NotAnObject \<Rightarrow> None
      | JsonObject f \<Rightarrow>
          (case in_test ''EGW00133'' (error_code f) of
             None \<Rightarrow> None
           | Some True \<Rightarrow> Some True
           | Some False \<Rightarrow> in_test once_per_minute (error_description f)))"

subsection \<open>get_access_token\<close>

text \<open>A 2xx answer of the token endpoint: store, date and persist the token.\<close>

definition token_issued :: "int \<Rightarrow> body \<Rightarrow> kis_client \<Rightarrow> (py_error + string option) \<times> kis_client" where
  "token_issued t b c =
     (case b of
        NotJson \<Rightarrow> (Inl (ValueError JSONDecodeError), c)
      | NotAnObject \<Rightarrow> (Inl OtherError, c)
      | JsonObject f \<Rightarrow>
          let c1 = c\<lparr>access_token := jo_access_token f\<rparr> in
          (case jo_access_token f of
             None \<Rightarrow> (Inl (ValueError NoAccessToken), c1)
           | Some token \<Rightarrow>
               if token = [] then (Inl (ValueError NoAccessToken), c1)
               else
                 let expires = t + (case expires_in f of None \<Rightarrow> 86400 | Some n \<Rightarrow> n);
                     c2 = c1\<lparr>token_expires_at := Some expires\<rparr>
                 in (case access_token_token_expired f of
                       Expiry d \<Rightarrow> (Inr (Some token), save_token_to_file token d c2)
                     | BadExpiry \<Rightarrow> (Inr (Some token), save_token_to_file token expires c2)
                     | NoExpiry \<Rightarrow> (Inr (Some token), save_token_to_file token expires c2))))"

text \<open>
  \<open>response.raise_for_status()\<close> and what follows it: the success path, or the handler
  \<open>except httpx.HTTPStatusError\<close> of \<open>get_access_token\<close>.
\<close>

definition after_raise_for_status ::
  "int \<Rightarrow> nat \<Rightarrow> body \<Rightarrow> kis_client \<Rightarrow> (py_error + string option) \<times> kis_client" where
  "after_raise_for_status t status b c =
     (if 200 \<le> status \<and> status < 300 then token_issued t b c
      else if status = 403 then
        (case b of
           NotJson \<Rightarrow> (Inl (ValueError JSONDecodeError), c)
         | NotAnObject \<Rightarrow> (Inl (ValueError AuthFailed), c)
         | JsonObject f \<Rightarrow>
             if rate_limit_test b = Some True then
               (if truthy (access_token c) then (Inr (access_token c), c)
                else (Inl (ValueError RateLimited), c))
             else (Inl (ValueError AuthFailed), c))
      else (Inl (HTTPStatusError status b), c))"

text \<open>The block \<open>if response.status_code == 403\<close> that stands before \<open>raise_for_status\<close>.\<close>

definition token_reply ::
  "int \<Rightarrow> nat \<Rightarrow> body \<Rightarrow> kis_client \<Rightarrow> (py_error + string option) \<times> kis_client" where
  "token_reply t status b c =
     (if status = 403 then
        (case b of
           NotJson \<Rightarrow> (Inl (ValueError JSONDecodeError), c)
         | NotAnObject \<Rightarrow> after_raise_for_status t status b c
         | JsonObject f \<Rightarrow>
             if rate_limit_test b = Some True then
               (case load_token_from_file t c of
                  (saved_token, c1) \<Rightarrow>
                    if truthy saved_token then (Inr saved_token, c1\<lparr>access_token := saved_token\<rparr>)
                    else if truthy (access_token c1) then (Inr (access_token c1), c1)
                    else (Inl (ValueError RateLimited), c1))
             else after_raise_for_status t status b c)
      else after_raise_for_status t status b c)"

definition get_access_token :: "brokerage \<Rightarrow> kis_client \<Rightarrow> (py_error + string option) \<times> kis_client" where
  "get_access_token env c =
     (case load_token_from_file (now env) c of
        (saved_token, c1) \<Rightarrow>
          if truthy saved_token \<and> is_token_valid (now env) c1 then (Inr saved_token, c1)
          else if app_key c1 = [] \<or> app_secret c1 = [] then (Inl (ValueError NoApiKey), c1)
          else
            let c2 = c1\<lparr>issue_requests := issue_requests c1 + 1\<rparr> in
            (case token_server env (issue_requests c1) of
               ConnectFails \<Rightarrow> (Inl HttpxTransportError, c2)
             | TimesOut \<Rightarrow> (Inl HttpxTransportError, c2)
             | Reply status b \<Rightarrow> token_reply (now env) status b c2))"

definition refresh_token :: "brokerage \<Rightarrow> kis_client \<Rightarrow> (py_error + string option) \<times> kis_client" where
  "refresh_token env c = get_access_token env c"

subsection \<open>ensure_token\<close>

text \<open>
  \<open>ensure_token\<close> recognises the rate limit by the message of the ValueError; of the
  messages the client raises, the two of \<open>RateLimited\<close> contain the phrases it looks for.
\<close>

definition mentions_rate_limit :: "py_error \<Rightarrow> bool" where
  "mentions_rate_limit e = (e = ValueError RateLimited)"

definition is_value_error :: "py_error \<Rightarrow> bool" where
  "is_value_error e = (case e of ValueError v \<Rightarrow> True | _ \<Rightarrow> False)"

definition ensure_token :: "brokerage \<Rightarrow> kis_client \<Rightarrow> (py_error + string option) \<times> kis_client" where
  "ensure_token env c =
     (if is_token_valid (now env) c \<and> truthy (access_token c) then (Inr (access_token c), c)
      else
        (case load_token_from_file (now env) c of
           (saved_token, c1) \<Rightarrow>
             if truthy saved_token \<and> is_token_valid (now env) c1 then (Inr saved_token, c1)
             else if truthy (access_token c1) then (Inr (access_token c1), c1)
             else
               (case refresh_token env c1 of
                  (Inr token, c2) \<Rightarrow> (Inr (access_token c2), c2)
                | (Inl e, c2) \<Rightarrow>
                    if is_value_error e \<and> mentions_rate_limit e then
                      (case load_token_from_file (now env) c2 of
                         (saved_again, c3) \<Rightarrow>
                           if truthy saved_again
                           then (Inr saved_again, c3\<lparr>access_token := saved_again\<rparr>)
                           else if truthy (access_token c3) then (Inr (access_token c3), c3)
                           else (Inl e, c3))
                    else (Inl e, c2))))"

text \<open>The disk holds a token that \<open>_load_token_from_file\<close> accepts as still valid.\<close>

definition disk_token_valid :: "int \<Rightarrow> kis_client \<Rightarrow> bool" where
  "disk_token_valid t c =
     (case token_file c of
        None \<Rightarrow> False
      | Some r \<Rightarrow>
          tf_token r \<noteq> []
          \<and> (case tf_valid_date r of ValidDate d \<Rightarrow> t < d | _ \<Rightarrow> False))"

subsection \<open>Example clients and brokerages\<close>

text \<open>
  The client writes the token file only with a token that is not empty; a file in that form
  is well formed.
\<close>

definition token_file_well_formed :: "kis_client \<Rightarrow> bool" where
  "token_file_well_formed c = (case token_file c of None \<Rightarrow> True | Some r \<Rightarrow> tf_token r \<noteq> [])"

definition blank_object :: json_object where
  "blank_object =
     \<lparr>rt_cd = None, msgs_readable = True, error_code = Missing,
      error_description = Missing, jo_access_token = None, expires_in = None,
      access_token_token_expired = NoExpiry\<rparr>"

definition fresh_client :: kis_client where
  "fresh_client =
     \<lparr>access_token = None, token_expires_at = None, app_key = ''key'', app_secret = ''secret'',
      token_file = None, issue_requests = 0, http_requests = 0\<rparr>"

definition issuing_brokerage :: brokerage where
  "issuing_brokerage =
     \<lparr>now = 100,
      token_server = (\<lambda>n. Reply 200 (JsonObject (blank_object\<lparr>jo_access_token := Some ''new''\<rparr>))),
      data_server = (\<lambda>n. Reply 200 (JsonObject (blank_object\<lparr>rt_cd := Some ''0''\<rparr>)))\<rparr>"


definition rejecting_brokerage :: brokerage where
  "rejecting_brokerage =
     issuing_brokerage
       \<lparr>token_server := (\<lambda>n. Reply 403 (JsonObject (blank_object\<lparr>error_code := Text ''EGW00103''\<rparr>)))\<rparr>"

definition expired_in_memory :: kis_client where
  "expired_in_memory = fresh_client\<lparr>access_token := Some ''held'', token_expires_at := Some 50\<rparr>"

definition valid_in_memory :: kis_client where
  "valid_in_memory = fresh_client\<lparr>access_token := Some ''held'', token_expires_at := Some 500\<rparr>"

definition valid_on_disk :: kis_client where
  "valid_on_disk =
     fresh_client\<lparr>token_file := Some \<lparr>tf_token = ''kept'', tf_valid_date = ValidDate 500\<rparr>\<rparr>"

definition expired_on_disk :: kis_client where
  "expired_on_disk =
     fresh_client\<lparr>token_file := Some \<lparr>tf_token = ''old'', tf_valid_date = ValidDate 50\<rparr>\<rparr>"


section \<open>ensure_token: which token is returned, and when one is issued\<close>

lemma valid_truthy: "is_token_valid t c \<Longrightarrow> truthy (access_token c)"
  by (auto simp: is_token_valid_def split: if_splits)

lemma load_valid_disk:
  assumes "disk_token_valid t c"
  shows "\<exists>r d. token_file c = Some r \<and> tf_valid_date r = ValidDate d \<and> t < d \<and> tf_token r \<noteq> []
           \<and> load_token_from_file t c
               = (Some (tf_token r), c\<lparr>access_token := Some (tf_token r), token_expires_at := Some d\<rparr>)"
  using assms
  by (auto simp: disk_token_valid_def load_token_from_file_def split: option.splits valid_date.splits)

lemma load_stale_disk:
  assumes "token_file_well_formed c" and "\<not> disk_token_valid t c"
  shows "snd (load_token_from_file t c) = c"
  using assms
  by (auto simp: disk_token_valid_def load_token_from_file_def token_file_well_formed_def
      split: option.splits valid_date.splits)

lemma load_issue_requests: "issue_requests (snd (load_token_from_file t c)) = issue_requests c"
  by (auto simp: load_token_from_file_def split: option.splits valid_date.splits)

lemma token_reply_issue_requests:
  "issue_requests (snd (token_reply t status b c)) = issue_requests c"
  by (auto simp: token_reply_def after_raise_for_status_def token_issued_def Let_def
      save_token_to_file_def load_token_from_file_def
      split: body.splits option.splits valid_date.splits expiry_field.splits if_splits)

lemma load_keeps_keys:
  assumes "load_token_from_file t c = (saved, c1)"
  shows "app_key c1 = app_key c" and "app_secret c1 = app_secret c"
    and "issue_requests c1 = issue_requests c"
  using assms
  by (auto simp: load_token_from_file_def split: option.splits valid_date.splits if_splits)

lemma load_again:
  assumes "load_token_from_file t c = (saved, c1)"
  shows "load_token_from_file t (c1\<lparr>issue_requests := n\<rparr>) = (saved, c1\<lparr>issue_requests := n\<rparr>)"
  using assms
  by (auto simp: load_token_from_file_def split: option.splits valid_date.splits if_splits)

lemma get_access_token_asks_once:
  assumes "load_token_from_file (now env) c = (saved, c1)"
    and "\<not> (truthy saved \<and> is_token_valid (now env) c1)"
    and "app_key c \<noteq> []" and "app_secret c \<noteq> []"
  shows "issue_requests (snd (get_access_token env c)) = issue_requests c + 1"
proof -
  have k: "app_key c1 = app_key c" "app_secret c1 = app_secret c" "issue_requests c1 = issue_requests c"
    using assms(1) by (auto simp: load_token_from_file_def split: option.splits valid_date.splits if_splits)
  show ?thesis
    using assms k
    by (cases "token_server env (issue_requests c)")
       (simp_all add: get_access_token_def Let_def token_reply_issue_requests)
qed

lemma ensure_token_after_refresh:
  assumes "\<not> is_token_valid (now env) c"
    and "load_token_from_file (now env) c = (saved, c1)"
    and "\<not> (truthy saved \<and> is_token_valid (now env) c1)"
    and "\<not> truthy (access_token c1)"
  shows "issue_requests (snd (ensure_token env c)) = issue_requests (snd (refresh_token env c1))"
proof -
  obtain r c2 where rf: "refresh_token env c1 = (r, c2)"
    by (cases "refresh_token env c1")
  obtain again c3 where ld: "load_token_from_file (now env) c2 = (again, c3)"
    by (cases "load_token_from_file (now env) c2")
  have "issue_requests c3 = issue_requests c2"
    using load_issue_requests [of "now env" c2] ld by simp
  with assms rf ld show ?thesis
    by (cases r) (auto simp: ensure_token_def)
qed

text \<open>
  Well-formedness of the token file is kept by \<open>ensure_token\<close>: the client saves a token
  only after it has checked that the token is not empty.
\<close>

lemma load_keeps_file: "token_file (snd (load_token_from_file t c)) = token_file c"
  by (auto simp: load_token_from_file_def split: option.splits valid_date.splits)

lemma token_reply_well_formed:
  assumes "token_file_well_formed c"
  shows "token_file_well_formed (snd (token_reply t status b c))"
  using assms
  by (auto simp: token_reply_def after_raise_for_status_def token_issued_def Let_def
      save_token_to_file_def load_token_from_file_def token_file_well_formed_def
      split: body.splits option.splits valid_date.splits expiry_field.splits if_splits)

lemma get_access_token_well_formed:
  assumes "token_file_well_formed c"
  shows "token_file_well_formed (snd (get_access_token env c))"
proof -
  obtain saved c1 where ld: "load_token_from_file (now env) c = (saved, c1)"
    by (cases "load_token_from_file (now env) c")
  have f: "token_file c1 = token_file c"
    using load_keeps_file [of "now env" c] ld by simp
  then have wf1: "token_file_well_formed c1"
    using assms by (simp add: token_file_well_formed_def)
  then have wf2: "token_file_well_formed (c1\<lparr>issue_requests := issue_requests c1 + 1\<rparr>)"
    by (simp add: token_file_well_formed_def)
  show ?thesis
  proof (cases "token_server env (issue_requests c1)")
    case (Reply status b)
    with ld wf1 token_reply_well_formed [OF wf2, of "now env" status b] show ?thesis
      by (auto simp: get_access_token_def Let_def)
  qed (use ld wf1 wf2 in \<open>auto simp: get_access_token_def Let_def\<close>)
qed

lemma ensure_token_well_formed:
  assumes "token_file_well_formed c"
  shows "token_file_well_formed (snd (ensure_token env c))"
proof -
  obtain saved c1 where ld: "load_token_from_file (now env) c = (saved, c1)"
    by (cases "load_token_from_file (now env) c")
  have wf1: "token_file_well_formed c1"
    using load_keeps_file [of "now env" c] ld assms by (simp add: token_file_well_formed_def)
  obtain r c2 where rf: "get_access_token env c1 = (r, c2)"
    by (cases "get_access_token env c1")
  have wf2: "token_file_well_formed c2"
    using get_access_token_well_formed [OF wf1, of env] rf by simp
  obtain again c3 where l2: "load_token_from_file (now env) c2 = (again, c3)"
    by (cases "load_token_from_file (now env) c2")
  have wf3: "token_file_well_formed c3"
    using load_keeps_file [of "now env" c2] l2 wf2 by (simp add: token_file_well_formed_def)
  then have wf4: "token_file_well_formed (c3\<lparr>access_token := again\<rparr>)"
    by (simp add: token_file_well_formed_def)
  show ?thesis
    using assms ld wf1 rf wf2 l2 wf3 wf4
    by (cases r) (auto simp: ensure_token_def refresh_token_def)
qed

text \<open>
  C7, as the code has it. For a client whose token file, if there is one, holds a token that
  is not empty: (1) a valid token in memory is returned and nothing else happens; (2) otherwise
  a token on disk that is still valid is loaded into memory and returned; (3) otherwise a
  token in memory, expired or not, is returned and nothing else happens; (4) the token
  endpoint is asked only when memory holds no token and the disk holds no token that is still
  valid, and (5) in that case, with the API key and secret set, it is asked exactly once. A
  token on disk that has expired, or whose expiry is missing or unreadable, does not stop the
  issuance.
\<close>

theorem ensure_token_precedence:
  assumes wf: "token_file_well_formed c"
  shows "(is_token_valid (now env) c \<longrightarrow> ensure_token env c = (Inr (access_token c), c))
    \<and> (\<not> is_token_valid (now env) c \<and> disk_token_valid (now env) c \<longrightarrow>
         (\<exists>r d. token_file c = Some r \<and> tf_valid_date r = ValidDate d
            \<and> ensure_token env c
                = (Inr (Some (tf_token r)),
                   c\<lparr>access_token := Some (tf_token r), token_expires_at := Some d\<rparr>)))
    \<and> (\<not> is_token_valid (now env) c \<and> \<not> disk_token_valid (now env) c
          \<and> truthy (access_token c) \<longrightarrow>
         ensure_token env c = (Inr (access_token c), c))
    \<and> (issue_requests (snd (ensure_token env c)) \<noteq> issue_requests c \<longrightarrow>
         \<not> truthy (access_token c) \<and> \<not> disk_token_valid (now env) c)
    \<and> (\<not> truthy (access_token c) \<and> \<not> disk_token_valid (now env) c
          \<and> app_key c \<noteq> [] \<and> app_secret c \<noteq> [] \<longrightarrow>
         issue_requests (snd (ensure_token env c)) = issue_requests c + 1)"
proof -
  have p1: "ensure_token env c = (Inr (access_token c), c)" if "is_token_valid (now env) c"
    using that by (simp add: ensure_token_def valid_truthy)
  have p2: "\<exists>r d. token_file c = Some r \<and> tf_valid_date r = ValidDate d
            \<and> ensure_token env c
                = (Inr (Some (tf_token r)),
                   c\<lparr>access_token := Some (tf_token r), token_expires_at := Some d\<rparr>)"
    if nv: "\<not> is_token_valid (now env) c" and dv: "disk_token_valid (now env) c"
  proof -
    from load_valid_disk [OF dv] obtain r d where
      f: "token_file c = Some r" "tf_valid_date r = ValidDate d" "now env < d" "tf_token r \<noteq> []"
      and l: "load_token_from_file (now env) c
               = (Some (tf_token r), c\<lparr>access_token := Some (tf_token r), token_expires_at := Some d\<rparr>)"
      by blast
    have "is_token_valid (now env) (c\<lparr>access_token := Some (tf_token r), token_expires_at := Some d\<rparr>)"
      using f by (simp add: is_token_valid_def truthy_def)
    with nv l f show ?thesis by (simp add: ensure_token_def truthy_def)
  qed
  have stale: "snd (load_token_from_file (now env) c) = c" if "\<not> disk_token_valid (now env) c"
    using load_stale_disk [OF wf that] .
  have p3: "ensure_token env c = (Inr (access_token c), c)"
    if nv: "\<not> is_token_valid (now env) c" and nd: "\<not> disk_token_valid (now env) c"
      and mem: "truthy (access_token c)"
  proof -
    obtain saved where "load_token_from_file (now env) c = (saved, c)"
      using stale [OF nd] by (cases "load_token_from_file (now env) c") simp
    with nv mem show ?thesis by (simp add: ensure_token_def)
  qed
  have p5: "issue_requests (snd (ensure_token env c)) = issue_requests c + 1"
    if nm: "\<not> truthy (access_token c)" and nd: "\<not> disk_token_valid (now env) c"
      and k: "app_key c \<noteq> []" "app_secret c \<noteq> []"
  proof -
    have nv: "\<not> is_token_valid (now env) c" using nm valid_truthy by blast
    obtain saved where l: "load_token_from_file (now env) c = (saved, c)"
      using stale [OF nd] by (cases "load_token_from_file (now env) c") simp
    have ns: "\<not> (truthy saved \<and> is_token_valid (now env) c)" using nv by simp
    from ensure_token_after_refresh [OF nv l ns nm]
    have "issue_requests (snd (ensure_token env c)) = issue_requests (snd (get_access_token env c))"
      by (simp add: refresh_token_def)
    also have "\<dots> = issue_requests c + 1"
      using get_access_token_asks_once [OF l ns k] .
    finally show ?thesis .
  qed
  have p4: "\<not> truthy (access_token c) \<and> \<not> disk_token_valid (now env) c"
    if ch: "issue_requests (snd (ensure_token env c)) \<noteq> issue_requests c"
  proof (rule ccontr)
    assume "\<not> (\<not> truthy (access_token c) \<and> \<not> disk_token_valid (now env) c)"
    then consider (v) "is_token_valid (now env) c"
      | (d) "\<not> is_token_valid (now env) c" "disk_token_valid (now env) c"
      | (m) "\<not> is_token_valid (now env) c" "\<not> disk_token_valid (now env) c" "truthy (access_token c)"
      by blast
    then have "issue_requests (snd (ensure_token env c)) = issue_requests c"
    proof cases
      case v
      then show ?thesis using p1 by simp
    next
      case d
      from p2 [OF d] show ?thesis by auto
    next
      case m
      then show ?thesis using p3 by simp
    qed
    with ch show False by simp
  qed
  show ?thesis using p1 p2 p3 p4 p5 by blast
qed

theorem ensure_token_precedence_witness:
  "token_file_well_formed valid_in_memory
   \<and> ensure_token issuing_brokerage valid_in_memory = (Inr (Some ''held''), valid_in_memory)
   \<and> fst (ensure_token issuing_brokerage valid_on_disk) = Inr (Some ''kept'')
   \<and> ensure_token issuing_brokerage expired_in_memory = (Inr (Some ''held''), expired_in_memory)
   \<and> issue_requests (snd (ensure_token issuing_brokerage fresh_client)) = 1"
proof -
  have wf: "token_file_well_formed valid_in_memory" "token_file_well_formed valid_on_disk"
    "token_file_well_formed expired_in_memory" "token_file_well_formed fresh_client"
    by (simp_all add: token_file_well_formed_def valid_in_memory_def valid_on_disk_def
        expired_in_memory_def fresh_client_def)
  have t: "now issuing_brokerage = 100" by (simp add: issuing_brokerage_def)
  have v1: "is_token_valid (now issuing_brokerage) valid_in_memory"
    by (simp add: t is_token_valid_def truthy_def valid_in_memory_def fresh_client_def)
  have v2: "\<not> is_token_valid (now issuing_brokerage) valid_on_disk
            \<and> disk_token_valid (now issuing_brokerage) valid_on_disk"
    by (simp add: t is_token_valid_def truthy_def disk_token_valid_def valid_on_disk_def
        fresh_client_def)
  have v3: "\<not> is_token_valid (now issuing_brokerage) expired_in_memory
            \<and> \<not> disk_token_valid (now issuing_brokerage) expired_in_memory
            \<and> truthy (access_token expired_in_memory)"
    by (simp add: t is_token_valid_def truthy_def disk_token_valid_def expired_in_memory_def
        fresh_client_def)
  have v4: "\<not> truthy (access_token fresh_client)
            \<and> \<not> disk_token_valid (now issuing_brokerage) fresh_client
            \<and> app_key fresh_client \<noteq> [] \<and> app_secret fresh_client \<noteq> []"
    by (simp add: truthy_def disk_token_valid_def fresh_client_def)
  from ensure_token_precedence [OF wf(1), of issuing_brokerage] v1
  have w1: "ensure_token issuing_brokerage valid_in_memory
              = (Inr (access_token valid_in_memory), valid_in_memory)"
    by blast
  from ensure_token_precedence [OF wf(2), of issuing_brokerage] v2
  obtain r d where "token_file valid_on_disk = Some r"
    and "ensure_token issuing_brokerage valid_on_disk
           = (Inr (Some (tf_token r)),
              valid_on_disk\<lparr>access_token := Some (tf_token r), token_expires_at := Some d\<rparr>)"
    by blast
  then have w2: "fst (ensure_token issuing_brokerage valid_on_disk) = Inr (Some ''kept'')"
    by (auto simp: valid_on_disk_def fresh_client_def)
  from ensure_token_precedence [OF wf(3), of issuing_brokerage] v3
  have w3: "ensure_token issuing_brokerage expired_in_memory
              = (Inr (access_token expired_in_memory), expired_in_memory)"
    by blast
  from ensure_token_precedence [OF wf(4), of issuing_brokerage] v4
  have w4: "issue_requests (snd (ensure_token issuing_brokerage fresh_client))
              = issue_requests fresh_client + 1"
    by blast
  have m: "access_token valid_in_memory = Some ''held''"
    "access_token expired_in_memory = Some ''held''" "issue_requests fresh_client = 0"
    by (simp_all add: valid_in_memory_def expired_in_memory_def fresh_client_def)
  show ?thesis using wf(1) w1 w2 w3 w4 m by simp
qed

text \<open>
  The claim's last step, "a new token is issued only when no token exists in memory or on
  disk", fails for a token on disk that has expired: memory is empty, the file holds the token
  \<open>old\<close> with an expiry in the past, and \<open>ensure_token\<close> asks the token endpoint and
  returns the new token.
\<close>

theorem ensure_token_issues_with_token_on_disk:
  "token_file expired_on_disk = Some \<lparr>tf_token = ''old'', tf_valid_date = ValidDate 50\<rparr>
   \<and> access_token expired_on_disk = None
   \<and> fst (ensure_token issuing_brokerage expired_on_disk) = Inr (Some ''new'')
   \<and> issue_requests (snd (ensure_token issuing_brokerage expired_on_disk)) = 1"
  by code_simp

section \<open>get_access_token: a throttled issuance and a refused one\<close>

subsection \<open>What the call writes to the log\<close>















subsection \<open>The logged functions are the ones above\<close>






subsection \<open>Reuse under the issuance limit\<close>









section \<open>The request pipeline and the data calls (kis_client.py)\<close>

text \<open>
  \<open>_request\<close>: one request is sent; a 2xx answer is parsed and an envelope whose \<open>rt_cd\<close>
  is not "0" raises; the transport's failures are raised as the builtin ConnectionError and
  TimeoutError; any other status raises HTTPStatusError. \<open>NotAnObject\<close> in a 2xx answer is
  a JSON array, which \<open>_request\<close> returns as it is.
\<close>

definition send_request :: "brokerage \<Rightarrow> kis_client \<Rightarrow> http_outcome \<times> kis_client" where
  "send_request env c = (data_server env (http_requests c), c\<lparr>http_requests := http_requests c + 1\<rparr>)"

definition classify :: "http_outcome \<Rightarrow> py_error + body" where
  "classify outcome =
     (case outcome of
        ConnectFails \<Rightarrow> Inl ConnectionError
      | TimesOut \<Rightarrow> Inl TimeoutError
      | Reply status b \<Rightarrow>
          if 200 \<le> status \<and> status < 300 then
            (case b of
               NotJson \<Rightarrow> Inl (ValueError JSONDecodeError)
             | NotAnObject \<Rightarrow> Inr b
             | JsonObject f \<Rightarrow>
                 (case rt_cd f of
                    None \<Rightarrow> Inr b
                  | Some code \<Rightarrow> if code \<noteq> ''0'' then Inl BrokerRejected else Inr b))
          else Inl (HTTPStatusError status b))"

text \<open>\<open>_request(..., retry=False)\<close>.\<close>

definition request_once :: "brokerage \<Rightarrow> kis_client \<Rightarrow> (py_error + body) \<times> kis_client" where
  "request_once env c = (case send_request env c of (outcome, c1) \<Rightarrow> (classify outcome, c1))"

text \<open>
  \<open>_request(..., retry=True)\<close>: on a 401 the token is refreshed and the request is sent once
  more without retry; an exception of the refresh leaves \<open>_request\<close>.
\<close>

definition request :: "brokerage \<Rightarrow> kis_client \<Rightarrow> (py_error + body) \<times> kis_client" where
  "request env c =
     (case send_request env c of
        (outcome, c1) \<Rightarrow>
          (case outcome of
             Reply status b \<Rightarrow>
               if status = 401 then
                 (case refresh_token env c1 of
                    (Inl e, c2) \<Rightarrow> (Inl e, c2)
                  | (Inr token, c2) \<Rightarrow> request_once env c2)
               else (classify outcome, c1)
           | _ \<Rightarrow> (classify outcome, c1)))"

text \<open>The body of every data call: \<open>await self.ensure_token()\<close>, then the request.\<close>

definition authorized_request :: "brokerage \<Rightarrow> kis_client \<Rightarrow> (py_error + body) \<times> kis_client" where
  "authorized_request env c =
     (case ensure_token env c of
        (Inl e, c1) \<Rightarrow> (Inl e, c1)
      | (Inr token, c1) \<Rightarrow> request env c1)"

datatype data_call =
    GetAccountBalance | GetCurrentPrice | GetOrderbook | SearchStockInfo | GetDailyChart
  | GetPriceTrend | GetVolumeRank | GetFluctuationRank | GetMarketCapRank
  | PlaceOrder | CancelOrder | GetOrderHistory

datatype fetched = FromBroker body | Synthetic

text \<open>
  The \<open>try\<close> block in the 500 handler of \<open>get_account_balance\<close> reaches its end: the body
  parses as a JSON object and the substring tests on \<open>msg_cd\<close> and \<open>msg1\<close> do not raise.
\<close>

definition envelope_read :: "body \<Rightarrow> bool" where
  "envelope_read b = (case b of JsonObject f \<Rightarrow> msgs_readable f | _ \<Rightarrow> False)"

text \<open>
  The \<open>except\<close> clauses of each data call, for the exception \<open>e\<close> its body raised;
  \<open>use_mock\<close> is \<open>settings.USE_MOCK_DATA\<close>. \<open>get_current_price\<close>, \<open>place_order\<close>,
  \<open>cancel_order\<close> and \<open>get_order_history\<close> have no \<open>try\<close>.
\<close>

fun recover :: "bool \<Rightarrow> data_call \<Rightarrow> py_error \<Rightarrow> py_error + fetched" where
  "recover use_mock GetAccountBalance e =
     (case e of
        HTTPStatusError status b \<Rightarrow>
          if status = 500 \<and> envelope_read b \<and> use_mock then Inr Synthetic else Inl e
      | ConnectionError \<Rightarrow> if use_mock then Inr Synthetic else Inl e
      | TimeoutError \<Rightarrow> if use_mock then Inr Synthetic else Inl e
      | _ \<Rightarrow> Inl e)"
| "recover use_mock GetCurrentPrice e = Inl e"
| "recover use_mock PlaceOrder e = Inl e"
| "recover use_mock CancelOrder e = Inl e"
| "recover use_mock GetOrderHistory e = Inl e"
| "recover use_mock call e =
     (case e of
        ConnectionError \<Rightarrow> if use_mock then Inr Synthetic else Inl e
      | TimeoutError \<Rightarrow> if use_mock then Inr Synthetic else Inl e
      | _ \<Rightarrow> Inl e)"

definition data_call_result ::
  "bool \<Rightarrow> data_call \<Rightarrow> brokerage \<Rightarrow> kis_client \<Rightarrow> (py_error + fetched) \<times> kis_client" where
  "data_call_result use_mock call env c =
     (case authorized_request env c of
        (Inl e, c1) \<Rightarrow> (recover use_mock call e, c1)
      | (Inr b, c1) \<Rightarrow> (Inr (FromBroker b), c1))"

definition failing_brokerage :: brokerage where
  "failing_brokerage =
     issuing_brokerage
       \<lparr>data_server := (\<lambda>n. Reply 500 (JsonObject (blank_object\<lparr>rt_cd := Some ''1''\<rparr>)))\<rparr>"

definition unreachable_brokerage :: brokerage where
  "unreachable_brokerage = issuing_brokerage\<lparr>data_server := (\<lambda>n. ConnectFails)\<rparr>"

section \<open>When a data call answers with synthetic data\<close>

lemma token_reply_errors:
  assumes "fst (token_reply t status b c) = Inl e"
  shows "e \<noteq> ConnectionError \<and> e \<noteq> TimeoutError \<and> e \<noteq> BrokerRejected"
  using assms
  by (auto simp: token_reply_def after_raise_for_status_def token_issued_def Let_def
      split: body.splits option.splits expiry_field.splits if_splits prod.splits)

lemma get_access_token_errors:
  assumes "fst (get_access_token env c) = Inl e"
  shows "e \<noteq> ConnectionError \<and> e \<noteq> TimeoutError \<and> e \<noteq> BrokerRejected"
proof -
  obtain saved c1 where ld: "load_token_from_file (now env) c = (saved, c1)"
    by (cases "load_token_from_file (now env) c")
  show ?thesis
  proof (cases "token_server env (issue_requests c1)")
    case (Reply status b)
    with assms ld token_reply_errors [of "now env" status b _ e] show ?thesis
      by (auto simp: get_access_token_def Let_def split: if_splits)
  qed (use assms ld in \<open>auto simp: get_access_token_def Let_def split: if_splits\<close>)
qed

lemma ensure_token_errors:
  assumes "fst (ensure_token env c) = Inl e"
  shows "e \<noteq> ConnectionError \<and> e \<noteq> TimeoutError \<and> e \<noteq> BrokerRejected"
proof -
  obtain saved c1 where ld: "load_token_from_file (now env) c = (saved, c1)"
    by (cases "load_token_from_file (now env) c")
  obtain r c2 where rf: "get_access_token env c1 = (r, c2)"
    by (cases "get_access_token env c1")
  obtain again c3 where l2: "load_token_from_file (now env) c2 = (again, c3)"
    by (cases "load_token_from_file (now env) c2")
  from assms ld rf l2 have "r = Inl e"
    by (cases r) (auto simp: ensure_token_def refresh_token_def split: if_splits)
  with rf get_access_token_errors [of env c1 e] show ?thesis by simp
qed

lemma classify_connection:
  "(classify outcome = Inl ConnectionError) = (outcome = ConnectFails)"
  "(classify outcome = Inl TimeoutError) = (outcome = TimesOut)"
  by (auto simp: classify_def split: http_outcome.splits body.splits option.splits)

lemma request_once_connection:
  assumes "fst (request_once env c) = Inl e" and "e = ConnectionError \<or> e = TimeoutError"
  shows "\<exists>n. data_server env n = ConnectFails \<or> data_server env n = TimesOut"
  using assms classify_connection
  by (auto simp: request_once_def send_request_def)

lemma request_connection:
  assumes "fst (request env c) = Inl e" and "e = ConnectionError \<or> e = TimeoutError"
  shows "\<exists>n. data_server env n = ConnectFails \<or> data_server env n = TimesOut"
proof (cases "data_server env (http_requests c)")
  case (Reply status b)
  let ?c1 = "c\<lparr>http_requests := http_requests c + 1\<rparr>"
  show ?thesis
  proof (cases "status = 401")
    case True
    obtain r c2 where rf: "get_access_token env ?c1 = (r, c2)"
      by (cases "get_access_token env ?c1")
    show ?thesis
    proof (cases r)
      case (Inl e')
      with assms Reply True rf get_access_token_errors [of env ?c1 e'] show ?thesis
        by (auto simp: request_def send_request_def refresh_token_def)
    next
      case (Inr token)
      with assms(1) Reply True rf have "fst (request_once env c2) = Inl e"
        by (simp add: request_def send_request_def refresh_token_def)
      then show ?thesis using assms(2) by (rule request_once_connection)
    qed
  next
    case False
    with assms Reply classify_connection [of "Reply status b"] show ?thesis
      by (auto simp: request_def send_request_def)
  qed
qed (auto)

lemma authorized_request_connection:
  assumes "fst (authorized_request env c) = Inl e" and "e = ConnectionError \<or> e = TimeoutError"
  shows "\<exists>n. data_server env n = ConnectFails \<or> data_server env n = TimesOut"
proof -
  obtain r c1 where et: "ensure_token env c = (r, c1)"
    by (cases "ensure_token env c")
  show ?thesis
  proof (cases r)
    case (Inl e')
    with assms et ensure_token_errors [of env c e'] show ?thesis
      by (auto simp: authorized_request_def)
  next
    case (Inr token)
    with assms(1) et have "fst (request env c1) = Inl e"
      by (simp add: authorized_request_def)
    then show ?thesis using assms(2) by (rule request_connection)
  qed
qed

text \<open>
  C5, as the code has it. A data call of the client returns synthetic data only when
  \<open>USE_MOCK_DATA\<close> is set and its body raised the builtin ConnectionError or TimeoutError, or,
  in \<open>get_account_balance\<close> alone, an HTTPStatusError with status 500 whose body the handler
  could read as a JSON envelope. A ValueError (every failure of the token issuance that is
  about the credentials or the issuance limit), a broker rejection inside a 2xx answer and an
  HTTP error of any status other than 500 leave the call as they were raised. ConnectionError
  and TimeoutError are raised only when the transport of a data request failed.
\<close>

theorem synthetic_data_only_when:
  "(fst (data_call_result use_mock call env c) = Inr Synthetic \<longrightarrow>
      use_mock
      \<and> (fst (authorized_request env c) = Inl ConnectionError
         \<or> fst (authorized_request env c) = Inl TimeoutError
         \<or> (call = GetAccountBalance
            \<and> (\<exists>b. fst (authorized_request env c) = Inl (HTTPStatusError 500 b)
                    \<and> envelope_read b))))
   \<and> (\<forall>v. fst (authorized_request env c) = Inl (ValueError v) \<longrightarrow>
          fst (data_call_result use_mock call env c) = Inl (ValueError v))
   \<and> (fst (authorized_request env c) = Inl BrokerRejected \<longrightarrow>
          fst (data_call_result use_mock call env c) = Inl BrokerRejected)
   \<and> (\<forall>status b. status \<noteq> 500 \<and> fst (authorized_request env c) = Inl (HTTPStatusError status b) \<longrightarrow>
          fst (data_call_result use_mock call env c) = Inl (HTTPStatusError status b))
   \<and> (fst (authorized_request env c) = Inl ConnectionError
        \<or> fst (authorized_request env c) = Inl TimeoutError \<longrightarrow>
          (\<exists>n. data_server env n = ConnectFails \<or> data_server env n = TimesOut))"
proof -
  obtain r c1 where ar: "authorized_request env c = (r, c1)"
    by (cases "authorized_request env c")
  have res: "fst (data_call_result use_mock call env c)
      = (case r of Inl e \<Rightarrow> recover use_mock call e | Inr b \<Rightarrow> Inr (FromBroker b))"
    using ar by (simp add: data_call_result_def split: sum.splits)
  have synth: "use_mock \<and> (e = ConnectionError \<or> e = TimeoutError
         \<or> (call = GetAccountBalance \<and> (\<exists>b. e = HTTPStatusError 500 b \<and> envelope_read b)))"
    if "recover use_mock call e = Inr Synthetic" for e
    using that by (cases call; cases e) (auto split: if_splits)
  have keep_value: "recover use_mock call (ValueError v) = Inl (ValueError v)" for v
    by (cases call) simp_all
  have keep_reject: "recover use_mock call BrokerRejected = Inl BrokerRejected"
    by (cases call) simp_all
  have keep_status: "recover use_mock call (HTTPStatusError status b) = Inl (HTTPStatusError status b)"
    if "status \<noteq> 500" for status b
    using that by (cases call) simp_all
  have transport: "\<exists>n. data_server env n = ConnectFails \<or> data_server env n = TimesOut"
    if "fst (authorized_request env c) = Inl ConnectionError
        \<or> fst (authorized_request env c) = Inl TimeoutError"
    using that authorized_request_connection [of env c] by blast
  have c1: "fst (data_call_result use_mock call env c) = Inr Synthetic \<longrightarrow>
      use_mock
      \<and> (fst (authorized_request env c) = Inl ConnectionError
         \<or> fst (authorized_request env c) = Inl TimeoutError
         \<or> (call = GetAccountBalance
            \<and> (\<exists>b. fst (authorized_request env c) = Inl (HTTPStatusError 500 b)
                    \<and> envelope_read b)))"
  proof (cases r)
    case (Inl e)
    with res ar synth [of e] show ?thesis by auto
  next
    case (Inr b)
    with res show ?thesis by simp
  qed
  have c2: "\<forall>v. fst (authorized_request env c) = Inl (ValueError v) \<longrightarrow>
          fst (data_call_result use_mock call env c) = Inl (ValueError v)"
    using res ar keep_value by auto
  have c3: "fst (authorized_request env c) = Inl BrokerRejected \<longrightarrow>
          fst (data_call_result use_mock call env c) = Inl BrokerRejected"
    using res ar keep_reject by auto
  have c4: "\<forall>status b. status \<noteq> 500 \<and> fst (authorized_request env c) = Inl (HTTPStatusError status b) \<longrightarrow>
          fst (data_call_result use_mock call env c) = Inl (HTTPStatusError status b)"
    using res ar keep_status by auto
  show ?thesis using c1 c2 c3 c4 transport by blast
qed

theorem synthetic_data_only_when_witness:
  "fst (data_call_result True GetOrderbook unreachable_brokerage valid_in_memory) = Inr Synthetic
   \<and> (\<exists>n. data_server unreachable_brokerage n = ConnectFails
          \<or> data_server unreachable_brokerage n = TimesOut)
   \<and> fst (data_call_result True GetAccountBalance rejecting_brokerage fresh_client)
       = Inl (ValueError AuthFailed)"
proof -
  have s: "fst (data_call_result True GetOrderbook unreachable_brokerage valid_in_memory)
             = Inr Synthetic"
    by code_simp
  have a: "fst (authorized_request rejecting_brokerage fresh_client) = Inl (ValueError AuthFailed)"
    by code_simp
  from synthetic_data_only_when [of True GetOrderbook unreachable_brokerage valid_in_memory] s
  have "\<exists>n. data_server unreachable_brokerage n = ConnectFails
          \<or> data_server unreachable_brokerage n = TimesOut"
    by auto
  moreover
  from synthetic_data_only_when [of True GetAccountBalance rejecting_brokerage fresh_client] a
  have "fst (data_call_result True GetAccountBalance rejecting_brokerage fresh_client)
       = Inl (ValueError AuthFailed)"
    by blast
  ultimately show ?thesis using s by blast
qed

text \<open>
  The claim's "an HTTP error response carrying a broker error envelope is never replaced"
  fails in \<open>get_account_balance\<close>: the brokerage answers 500 with an envelope whose
  \<open>rt_cd\<close> is 1, and with \<open>USE_MOCK_DATA\<close> set the call returns synthetic data.
\<close>

theorem account_balance_500_replaced_counterexample:
  "fst (authorized_request failing_brokerage valid_in_memory)
     = Inl (HTTPStatusError 500 (JsonObject (blank_object\<lparr>rt_cd := Some ''1''\<rparr>)))
   \<and> fst (data_call_result True GetAccountBalance failing_brokerage valid_in_memory)
     = Inr Synthetic"
  by code_simp

end
